theory Spec2Isabelle
  imports Main "HOL-Library.AList" "HOL-Library.Sublist"
begin

section \<open>The deployment task of \<^verbatim>\<open>hardhat.config.ts\<close>\<close>

text \<open>
  The source file configures Hardhat and defines one task, \<^verbatim>\<open>deploy\<close>. The task is a
  straight-line asynchronous procedure: every \<^verbatim>\<open>await\<close> is taken before the next statement
  runs, so a run is a sequence of calls, and a call that throws (or whose promise rejects)
  ends the run with that error. The model passes a world (the calls made so far and the
  file system) through the statements and returns an \<open>error + 'a\<close> beside it.
\<close>

subsection \<open>Errors and JavaScript values\<close>

text \<open>
  A JavaScript \<^verbatim>\<open>number\<close> is held as the decimal that \<^verbatim>\<open>Number.prototype.toString\<close> prints
  for it: \<open>Dec m e\<close> is \<open>m * 10 ^ e\<close>. Only this decimal text reaches the gas price
  conversion.
\<close>

datatype number = NaN | PosInfinity | NegInfinity | Dec int int

datatype error =
    Error string              \<comment> \<open>\<^verbatim>\<open>throw new Error(message)\<close>\<close>
  | AssertionError            \<comment> \<open>\<^verbatim>\<open>assert(false)\<close>\<close>
  | BadDecimalFormat number   \<comment> \<open>the \<^verbatim>\<open>Error\<close> of \<^verbatim>\<open>Decimal.from\<close> on a text it cannot read\<close>
  | RangeError                \<comment> \<open>\<^verbatim>\<open>new Array(n)\<close> with an invalid length\<close>
  | Rejected string           \<comment> \<open>an error thrown by an external collaborator\<close>
  | FsError string            \<comment> \<open>an error of \<^verbatim>\<open>fs\<close>, by its code\<close>

text \<open>The operand test of \<^verbatim>\<open>&&\<close> on a number: zero and NaN are falsy.\<close>

fun truthy :: "number \<Rightarrow> bool" where
  "truthy NaN = False"
| "truthy PosInfinity = True"
| "truthy NegInfinity = True"
| "truthy (Dec m e) = (m \<noteq> 0)"

text \<open>
  The value of a property read. \<open>JSInherited k\<close> is the property \<open>k\<close> that every object
  literal inherits from \<^verbatim>\<open>Object.prototype\<close> (a function, or the prototype itself).
\<close>

datatype js_value = JSUndefined | JSString string | JSInherited string

text \<open>The value of \<^verbatim>\<open>overrides.gasPrice\<close>: undefined, a number, or a hex string.\<close>

datatype gas_value = GasUndefined | GasNumber number | GasHex string

subsection \<open>The fixed-point \<^verbatim>\<open>Decimal\<close> and the gas price\<close>

text \<open>
  Modelled from the spec: \<^verbatim>\<open>Decimal\<close> comes from the package \<^verbatim>\<open>@liquity/lib-base\<close>, which
  is not among the sources. The spec gives what line 189 computes with it: the
  \<^verbatim>\<open>gasPrice\<close> in Gwei becomes a hex wei value, and 20 becomes the hex encoding of
  20_000_000_000. The source reaches that by \<^emph>\<open>dividing\<close> by \<open>10^9\<close> and reading \<^verbatim>\<open>.hex\<close>,
  which gives wei only when a \<^verbatim>\<open>Decimal\<close> is a fixed-point number with 18 fractional digits
  whose \<^verbatim>\<open>hex\<close> is the hex text of its underlying integer: \<open>g / 10^9\<close> is then held as
  \<open>g * 10^18 / 10^9 = g * 10^9\<close>. The model is that representation: a \<^verbatim>\<open>Decimal\<close> is its
  underlying natural number, digits beyond the 18th are cut off, a negative or infinite
  number has no \<^verbatim>\<open>Decimal\<close>, and division by zero gives the largest 256-bit value.
\<close>

datatype Decimal = Decimal (bigNumber: nat)

definition PRECISION :: nat where
  "PRECISION = 18"

definition DIGITS :: nat where
  "DIGITS = 10 ^ PRECISION"

definition Decimal_INFINITY :: Decimal where
  "Decimal_INFINITY = Decimal (2 ^ 256 - 1)"

text \<open>
  Modelled from the spec: \<^verbatim>\<open>Decimal.from\<close> of a number, missing with its class. The
  number's decimal text is read with 18 fractional digits, further digits cut off; a text
  with a sign, \<^verbatim>\<open>NaN\<close> and \<^verbatim>\<open>Infinity\<close> are not read.
\<close>

fun Decimal_from :: "number \<Rightarrow> error + Decimal" where
  "Decimal_from (Dec m e) =
     (if m < 0 then Inl (BadDecimalFormat (Dec m e))
      else if 0 \<le> e + int PRECISION then Inr (Decimal (nat m * 10 ^ nat (e + int PRECISION)))
      else Inr (Decimal (nat m div 10 ^ nat (- (e + int PRECISION)))))"
| "Decimal_from x = Inl (BadDecimalFormat x)"

text \<open>
  Modelled from the spec: \<^verbatim>\<open>Decimal.div\<close>, missing with its class. The divider is read as a
  \<^verbatim>\<open>Decimal\<close>; the quotient of the underlying integers is scaled back by \<open>10^18\<close> and
  rounded down.
\<close>

definition Decimal_div :: "Decimal \<Rightarrow> number \<Rightarrow> error + Decimal" where
  "Decimal_div d divider =
     (case Decimal_from divider of
        Inl err \<Rightarrow> Inl err
      | Inr dv \<Rightarrow>
          if bigNumber dv = 0 then Inr Decimal_INFINITY
          else Inr (Decimal (bigNumber d * DIGITS div bigNumber dv)))"

text \<open>
  Modelled from the spec: the \<^verbatim>\<open>hex\<close> of a \<^verbatim>\<open>Decimal\<close>, missing with its class, is the hex
  encoding of its underlying integer, as \<^verbatim>\<open>BigNumber.toHexString\<close> of ethers writes it:
  lower-case hex digits after \<^verbatim>\<open>0x\<close>, padded with one zero to an even number of digits (so
  zero is \<^verbatim>\<open>0x00\<close>).
\<close>

definition hexChar :: "nat \<Rightarrow> char" where
  "hexChar d = ''0123456789abcdef'' ! (d mod 16)"

function hexDigits :: "nat \<Rightarrow> string" where
  "hexDigits n = (if n < 16 then [hexChar n] else hexDigits (n div 16) @ [hexChar (n mod 16)])"
  by pat_completeness auto
termination
  by (relation "measure id") auto

declare hexDigits.simps [simp del]

definition toHexString :: "nat \<Rightarrow> string" where
  "toHexString n =
     (let ds = hexDigits n in ''0x'' @ (if odd (length ds) then CHR ''0'' # ds else ds))"

definition Decimal_hex :: "Decimal \<Rightarrow> string" where
  "Decimal_hex d = toHexString (bigNumber d)"

text \<open>
  Line 189: \<^verbatim>\<open>gasPrice && Decimal.from(gasPrice).div(1000000000).hex\<close>. An omitted
  \<^verbatim>\<open>gasPrice\<close> is \<^verbatim>\<open>undefined\<close>; \<^verbatim>\<open>&&\<close> returns a falsy left operand as it is.
\<close>

definition overridesGasPrice :: "number option \<Rightarrow> error + gas_value" where
  "overridesGasPrice gasPrice =
     (case gasPrice of
        None \<Rightarrow> Inr GasUndefined
      | Some g \<Rightarrow>
          if \<not> truthy g then Inr (GasNumber g)
          else (case Decimal_from g of
                  Inl err \<Rightarrow> Inl err
                | Inr d \<Rightarrow>
                    (case Decimal_div d (Dec 1000000000 0) of
                       Inl err \<Rightarrow> Inl err
                     | Inr q \<Rightarrow> Inr (GasHex (Decimal_hex q)))))"

text \<open>The wei in \<open>m * 10 ^ e\<close> Gwei, rounded down to a whole number of wei.\<close>

definition weiOfGwei :: "int \<Rightarrow> int \<Rightarrow> nat" where
  "weiOfGwei m e =
     (if 0 \<le> e + 9 then nat m * 10 ^ nat (e + 9) else nat m div 10 ^ nat (- (e + 9)))"

subsection \<open>The address tables and the capability predicates\<close>

text \<open>
  Lines 66--89. The tables are object literals, held as association lists in the order
  of the source. \<^verbatim>\<open>network in table\<close> is true for the table's own keys and for the
  names every object inherits from \<^verbatim>\<open>Object.prototype\<close>.
\<close>

record oracle_addresses =
  chainlink :: string
  tellor :: string

definition oracleAddresses :: "(string \<times> oracle_addresses) list" where
  "oracleAddresses =
     [(''mainnet'', \<lparr>chainlink = ''0x5f4eC3Df9cbd43714FE2740f5E3616155c5b8419'',
                     tellor = ''0x88dF592F8eb5D7Bd38bFeF7dEb0fBc02cf3778a0''\<rparr>),
      (''rinkeby'', \<lparr>chainlink = ''0x8A753747A1Fa494EC906cE90E9f37563A8AF630e'',
                     tellor = ''0x88dF592F8eb5D7Bd38bFeF7dEb0fBc02cf3778a0''\<rparr>),
      (''kovan'', \<lparr>chainlink = ''0x9326BFA02ADD2366b30bacB125260Af641031331'',
                   tellor = ''0x20374E579832859f180536A69093A126Db1c8aE9''\<rparr>)]"

definition wiotxAddresses :: "(string \<times> string) list" where
  "wiotxAddresses =
     [(''mainnet'', ''0xa00744882684c3e4747faefd68d283ea44099d03''),
      (''testnet'', ''0xff5fae9fe685b90841275e32c348dc4426190db0'')]"

definition objectPrototypeProperties :: "string list" where
  "objectPrototypeProperties =
     [''constructor'', ''__defineGetter__'', ''__defineSetter__'', ''hasOwnProperty'',
      ''__lookupGetter__'', ''__lookupSetter__'', ''isPrototypeOf'', ''propertyIsEnumerable'',
      ''toString'', ''valueOf'', ''__proto__'', ''toLocaleString'']"

definition inObject :: "string \<Rightarrow> (string \<times> 'a) list \<Rightarrow> bool" where
  "inObject k obj = (k \<in> set (map fst obj) \<or> k \<in> set objectPrototypeProperties)"

definition hasOracles :: "string \<Rightarrow> bool" where
  "hasOracles network = inObject network oracleAddresses"

definition hasWIOTX :: "string \<Rightarrow> bool" where
  "hasWIOTX network = inObject network wiotxAddresses"

text \<open>
  \<^verbatim>\<open>oracleAddresses[network].tellor\<close> and \<^verbatim>\<open>.chainlink\<close>, read only after
  \<open>hasOracles network\<close>: an own key gives the address of the table; an inherited name
  gives an object without that property, so the read is \<^verbatim>\<open>undefined\<close>.
\<close>

definition oracleAddress :: "(oracle_addresses \<Rightarrow> string) \<Rightarrow> string \<Rightarrow> js_value" where
  "oracleAddress field network =
     (case map_of oracleAddresses network of
        Some entry \<Rightarrow> JSString (field entry)
      | None \<Rightarrow> JSUndefined)"

text \<open>\<^verbatim>\<open>wiotxAddresses[network]\<close>, read only after \<open>hasWIOTX network\<close>.\<close>

definition wiotxAddressOf :: "string \<Rightarrow> js_value" where
  "wiotxAddressOf network =
     (case map_of wiotxAddresses network of
        Some address \<Rightarrow> JSString address
      | None \<Rightarrow> JSInherited network)"

subsection \<open>The accounts of the dev network\<close>

text \<open>
  Lines 25, 43--54 and 105--108. \<^verbatim>\<open>Wallet.createRandom()\<close> draws entropy; the model
  takes the private keys the process will draw as a sequence \<open>keys\<close> and counts how many
  have been drawn. \<^verbatim>\<open>new Array(n)\<close> is an array of \<open>n\<close> holes (\<open>None\<close>); it throws a
  \<^verbatim>\<open>RangeError\<close> unless \<open>0 \<le> n < 2^32\<close>.
\<close>

definition numAccounts :: int where
  "numAccounts = 100"

definition devChainRichAccount :: string where
  "devChainRichAccount = ''0x4d5db4107d237df6a3d58ee5f70ae63d73d7658d4026f2eefd2f204c81682cb7''"

type_synonym entropy = "nat \<Rightarrow> string"

definition createRandomPrivateKey :: "entropy \<Rightarrow> nat \<Rightarrow> string \<times> nat" where
  "createRandomPrivateKey keys drawn = (keys drawn, Suc drawn)"

function generateLoop ::
  "entropy \<Rightarrow> nat \<Rightarrow> nat \<Rightarrow> string option list \<Rightarrow> nat \<Rightarrow> string option list \<times> nat" where
  "generateLoop keys i numberOfAccounts accounts drawn =
     (if i < numberOfAccounts then
        (case createRandomPrivateKey keys drawn of
           (privateKey, drawn') \<Rightarrow>
             generateLoop keys (Suc i) numberOfAccounts (accounts[i := Some privateKey]) drawn')
      else (accounts, drawn))"
  by pat_completeness auto
termination
  by (relation "measure (\<lambda>(keys, i, n, accounts, drawn). n - i)")
     (auto simp: createRandomPrivateKey_def)

declare generateLoop.simps [simp del]

definition generateRandomAccounts ::
  "entropy \<Rightarrow> int \<Rightarrow> nat \<Rightarrow> error + string option list \<times> nat" where
  "generateRandomAccounts keys numberOfAccounts drawn =
     (if numberOfAccounts < 0 \<or> 4294967296 \<le> numberOfAccounts then Inl RangeError
      else Inr (generateLoop keys 0 (nat numberOfAccounts)
                  (replicate (nat numberOfAccounts) None) drawn))"

text \<open>
  Line 53: \<^verbatim>\<open>process.env.DEPLOYER_PRIVATE_KEY || Wallet.createRandom().privateKey\<close>. An
  unset variable and the empty string are falsy.
\<close>

definition deployerAccount :: "entropy \<Rightarrow> string option \<Rightarrow> nat \<Rightarrow> string \<times> nat" where
  "deployerAccount keys DEPLOYER_PRIVATE_KEY drawn =
     (case DEPLOYER_PRIVATE_KEY of
        None \<Rightarrow> createRandomPrivateKey keys drawn
      | Some k \<Rightarrow> if k = [] then createRandomPrivateKey keys drawn else (k, drawn))"

text \<open>Line 107: the account list of \<^verbatim>\<open>config.networks.dev\<close>.\<close>

definition devAccounts :: "entropy \<Rightarrow> string option \<Rightarrow> nat \<Rightarrow> error + string option list" where
  "devAccounts keys DEPLOYER_PRIVATE_KEY drawn =
     (case deployerAccount keys DEPLOYER_PRIVATE_KEY drawn of
        (deployer, drawn1) \<Rightarrow>
          (case generateRandomAccounts keys (numAccounts - 2) drawn1 of
             Inl err \<Rightarrow> Inl err
           | Inr (generated, drawn2) \<Rightarrow>
               Inr ([Some deployer, Some devChainRichAccount] @ generated)))"

subsection \<open>The deployment record and its JSON text\<close>

text \<open>
  The type \<^verbatim>\<open>_LiquityDeploymentJSON\<close> is declared outside the sources; the record is
  taken as any JSON object, its members in insertion order. A number is held as the text
  \<^verbatim>\<open>JSON.stringify\<close> prints for it.
\<close>

datatype json =
    JNull
  | JBool bool
  | JNumber string
  | JString string
  | JArray "json list"
  | JObject "(string \<times> json) list"

type_synonym deployment = "(string \<times> json) list"

definition joinWith :: "string \<Rightarrow> string list \<Rightarrow> string" where
  "joinWith sep parts = concat (case parts of [] \<Rightarrow> [] | p # ps \<Rightarrow> p # map (\<lambda>q. sep @ q) ps)"

text \<open>
  \<^verbatim>\<open>JSON.stringify(value, undefined, space)\<close> of ECMAScript, on bytes: the quoting of
  a string, the layout of arrays and objects with a gap, and the gap of a numeric
  \<^verbatim>\<open>space\<close> (at most ten spaces).
\<close>

definition quoteChar :: "char \<Rightarrow> string" where
  "quoteChar c =
     (if c = CHR 0x08 then [CHR 0x5C, CHR ''b'']
      else if c = CHR 0x09 then [CHR 0x5C, CHR ''t'']
      else if c = CHR 0x0A then [CHR 0x5C, CHR ''n'']
      else if c = CHR 0x0C then [CHR 0x5C, CHR ''f'']
      else if c = CHR 0x0D then [CHR 0x5C, CHR ''r'']
      else if c = CHR 0x22 then [CHR 0x5C, CHR 0x22]
      else if c = CHR 0x5C then [CHR 0x5C, CHR 0x5C]
      else if (of_char c :: nat) < 32
        then [CHR 0x5C, CHR ''u'', CHR ''0'', CHR ''0'',
              hexChar (of_char c div 16), hexChar (of_char c mod 16)]
      else [c])"

definition quoteJSONString :: "string \<Rightarrow> string" where
  "quoteJSONString s = CHR 0x22 # concat (map quoteChar s) @ [CHR 0x22]"

definition wrapJSON :: "string \<Rightarrow> string \<Rightarrow> string \<Rightarrow> string \<Rightarrow> string list \<Rightarrow> string" where
  "wrapJSON opening closing gap indent partial =
     (if partial = [] then opening @ closing
      else if gap = [] then opening @ joinWith '','' partial @ closing
      else opening @ [CHR 0x0A] @ indent @ gap
             @ joinWith ('','' @ [CHR 0x0A] @ indent @ gap) partial
             @ [CHR 0x0A] @ indent @ closing)"

fun serializeJSON :: "string \<Rightarrow> string \<Rightarrow> json \<Rightarrow> string" where
  "serializeJSON gap indent JNull = ''null''"
| "serializeJSON gap indent (JBool b) = (if b then ''true'' else ''false'')"
| "serializeJSON gap indent (JNumber text) = text"
| "serializeJSON gap indent (JString s) = quoteJSONString s"
| "serializeJSON gap indent (JArray elements) =
     wrapJSON ''['' '']'' gap indent (map (serializeJSON gap (indent @ gap)) elements)"
| "serializeJSON gap indent (JObject members) =
     wrapJSON ''{'' ''}'' gap indent
       (map (\<lambda>member. quoteJSONString (fst member) @ '':'' @ (if gap = [] then [] else '' '')
                          @ serializeJSON gap (indent @ gap) (snd member)) members)"

definition JSON_stringify :: "json \<Rightarrow> nat \<Rightarrow> string" where
  "JSON_stringify v space = serializeJSON (replicate (min space 10) CHR '' '') [] v"

text \<open>The double quote and the line feed, for writing out a JSON text.\<close>

definition quoteMark :: string where
  "quoteMark = [CHR 0x22]"

definition newline :: string where
  "newline = [CHR 0x0A]"

subsection \<open>Paths and the file system\<close>

text \<open>
  \<^verbatim>\<open>path.join\<close> of Node on POSIX: the non-empty arguments are joined with \<^verbatim>\<open>/\<close> and the
  result is normalised (empty and \<^verbatim>\<open>.\<close> segments dropped, \<^verbatim>\<open>..\<close> cancelling the
  segment before it).
\<close>

fun splitPath :: "string \<Rightarrow> string list" where
  "splitPath [] = [[]]"
| "splitPath (c # cs) =
     (if c = CHR ''/'' then [] # splitPath cs
      else (case splitPath cs of [] \<Rightarrow> [[c]] | seg # segs \<Rightarrow> (c # seg) # segs))"

definition pushSegment :: "bool \<Rightarrow> string list \<Rightarrow> string \<Rightarrow> string list" where
  "pushSegment allowAboveRoot res seg =
     (if seg = [] \<or> seg = ''.'' then res
      else if seg = ''..'' then
        (if res \<noteq> [] \<and> last res \<noteq> ''..'' then butlast res
         else if allowAboveRoot then res @ [''..'']
         else res)
      else res @ [seg])"

definition normalizeString :: "string \<Rightarrow> bool \<Rightarrow> string list" where
  "normalizeString path allowAboveRoot = foldl (pushSegment allowAboveRoot) [] (splitPath path)"

definition path_normalize :: "string \<Rightarrow> string" where
  "path_normalize path =
     (if path = [] then ''.''
      else
        (let isAbsolute = (hd path = CHR ''/'');
             trailingSeparator = (last path = CHR ''/'');
             normalized = joinWith ''/'' (normalizeString path (\<not> isAbsolute))
         in if normalized = [] then (if isAbsolute then ''/'' else if trailingSeparator then ''./'' else ''.'')
            else (if isAbsolute then ''/'' else [])
                   @ normalized @ (if trailingSeparator then ''/'' else [])))"

definition path_join :: "string list \<Rightarrow> string" where
  "path_join args =
     (let parts = filter (\<lambda>arg. arg \<noteq> []) args
      in if parts = [] then ''.'' else path_normalize (joinWith ''/'' parts))"

text \<open>
  The file system: the directories and the regular files, each under its resolved path (the
  list of its segments from the working directory; an absolute path starts with the segment
  \<^verbatim>\<open>/\<close>). The working directory, the root and the ancestors reached by \<^verbatim>\<open>..\<close> alone always
  exist. Names are limited as on Linux: a segment holds at most 255 bytes and a path fewer
  than 4096. Errors of permission and of the device are not modelled. The paths given to
  the two calls below are paths that \<^verbatim>\<open>path.join\<close> returned.
\<close>

record filesystem =
  dirs :: "string list set"
  files :: "string list \<rightharpoonup> string"

definition resolvePath :: "string \<Rightarrow> string list" where
  "resolvePath path =
     (if path \<noteq> [] \<and> hd path = CHR ''/'' then ''/'' # normalizeString path False
      else normalizeString path True)"

definition existsDir :: "filesystem \<Rightarrow> string list \<Rightarrow> bool" where
  "existsDir filesys p = (p \<in> dirs filesys \<or> list_all (\<lambda>seg. seg = ''..'' \<or> seg = ''/'') p)"

text \<open>
  What is refused for the path as a whole, before any segment is looked at: Node throws
  on a NUL byte without making a system call, the empty path names nothing, and the
  system refuses a path of \<^verbatim>\<open>PATH_MAX\<close> bytes or more.
\<close>

definition pathError :: "string \<Rightarrow> error option" where
  "pathError path =
     (if CHR 0x00 \<in> set path then Some (FsError ''ERR_INVALID_ARG_VALUE'')
      else if path = [] then Some (FsError ''ENOENT'')
      else if 4096 \<le> length path then Some (FsError ''ENAMETOOLONG'')
      else None)"

text \<open>The directories on the way to a path, from the top, the path itself last.\<close>

definition pathChain :: "string list \<Rightarrow> string list list" where
  "pathChain target = map (\<lambda>k. take k target) [1..<Suc (length target)]"

text \<open>
  \<^verbatim>\<open>fs.mkdirSync(path, { recursive: true })\<close>: the directory and its missing ancestors are
  created, from the top; an existing directory is no error. The call stops at the first
  directory it cannot make, a regular file in its place or a name longer than \<^verbatim>\<open>NAME_MAX\<close>,
  and the ancestors made until then stay.
\<close>

fun mkdirEach :: "string list list \<Rightarrow> filesystem \<Rightarrow> error option \<times> filesystem" where
  "mkdirEach [] filesys = (None, filesys)"
| "mkdirEach (p # ps) filesys =
     (if existsDir filesys p then mkdirEach ps filesys
      else if files filesys p \<noteq> None
        then (Some (FsError (if ps = [] then ''EEXIST'' else ''ENOTDIR'')), filesys)
      else if 255 < length (last p) then (Some (FsError ''ENAMETOOLONG''), filesys)
      else mkdirEach ps (filesys\<lparr>dirs := insert p (dirs filesys)\<rparr>))"

definition mkdirSync_recursive :: "string \<Rightarrow> filesystem \<Rightarrow> error option \<times> filesystem" where
  "mkdirSync_recursive path filesys =
     (case pathError path of
        Some err \<Rightarrow> (Some err, filesys)
      | None \<Rightarrow> mkdirEach (pathChain (resolvePath path)) filesys)"

text \<open>
  \<^verbatim>\<open>fs.writeFileSync(path, data)\<close>: the file is created or truncated and holds exactly
  \<open>data\<close> afterwards. Every directory on the way must exist, the name must fit, and the
  path must not be a directory.
\<close>

fun walkDirs :: "string list list \<Rightarrow> filesystem \<Rightarrow> error option" where
  "walkDirs [] filesys = None"
| "walkDirs (p # ps) filesys =
     (if existsDir filesys p then walkDirs ps filesys
      else if files filesys p \<noteq> None then Some (FsError ''ENOTDIR'')
      else if 255 < length (last p) then Some (FsError ''ENAMETOOLONG'')
      else Some (FsError ''ENOENT''))"

definition writeFileSync :: "string \<Rightarrow> string \<Rightarrow> filesystem \<Rightarrow> error + filesystem" where
  "writeFileSync path data filesys =
     (case pathError path of
        Some err \<Rightarrow> Inl err
      | None \<Rightarrow>
          (let target = resolvePath path
           in case walkDirs (butlast (pathChain target)) filesys of
                Some err \<Rightarrow> Inl err
              | None \<Rightarrow>
                  if existsDir filesys target then Inl (FsError ''EISDIR'')
                  else if 255 < length (last target) then Inl (FsError ''ENAMETOOLONG'')
                  else Inr (filesys\<lparr>files := (files filesys)(target \<mapsto> data)\<rparr>)))"

subsection \<open>The run-time environment and the calls of a run\<close>

text \<open>
  What the task calls and does not define: the Hardhat environment (\<^verbatim>\<open>env.network.name\<close>,
  \<^verbatim>\<open>env.ethers.getSigners\<close>), \<^verbatim>\<open>deployAndSetupContracts\<close> and \<^verbatim>\<open>deployTellorCaller\<close> of
  \<^verbatim>\<open>./utils/deploy\<close>, \<^verbatim>\<open>_connectToContracts\<close> and \<^verbatim>\<open>_priceFeedIsTestnet\<close> of
  \<^verbatim>\<open>./src/contracts\<close>, and the methods of the price feed contract and of its transaction.
  Each is a parameter: a function from the arguments of the call to what the call returns,
  \<open>Inl\<close> when it throws. A run makes each of these calls at most once, so nothing is lost
  by letting the answer depend on the arguments alone.
\<close>

type_synonym signer = string
type_synonym contract = string
type_synonym tx = string

datatype contract_factory = LiveArtifacts | CompiledArtifacts

record contracts =
  priceFeed :: contract

record environment =
  network_name :: string
  getSigners :: "error + signer list"
  deployAndSetupContracts ::
    "signer option \<Rightarrow> contract_factory \<Rightarrow> bool \<Rightarrow> bool \<Rightarrow> js_value \<Rightarrow> gas_value \<Rightarrow> error + deployment"
  connectToContracts :: "signer option \<Rightarrow> deployment \<Rightarrow> error + contracts"
  priceFeedIsTestnet :: "contract \<Rightarrow> bool"
  deployTellorCaller ::
    "signer option \<Rightarrow> contract_factory \<Rightarrow> js_value \<Rightarrow> gas_value \<Rightarrow> error + string"
  setAddresses :: "contract \<Rightarrow> js_value \<Rightarrow> string \<Rightarrow> gas_value \<Rightarrow> error + tx"
  wait :: "tx \<Rightarrow> error + unit"

text \<open>The values fixed when the module is loaded (lines 27--37).\<close>

record startup =
  useLiveVersion :: bool
  contractsVersion :: string

text \<open>Lines 134--141: the factory lookup is chosen once, by \<^verbatim>\<open>useLiveVersion\<close>.\<close>

definition getContractFactory :: "startup \<Rightarrow> contract_factory" where
  "getContractFactory st = (if useLiveVersion st then LiveArtifacts else CompiledArtifacts)"

text \<open>
  A call made by a run, with its arguments, in the order of the calls. The call is recorded
  when it is made, whether or not it returns.
\<close>

datatype event =
    GetSigners
  | SetSilent bool
  | DeployAndSetupContracts "signer option" contract_factory bool bool js_value gas_value
  | ConnectToContracts "signer option" deployment
  | DeployTellorCaller "signer option" contract_factory js_value gas_value
  | SetAddresses contract js_value string gas_value
  | TxWait tx
  | MkdirSync string
  | WriteFileSync string string
  | ConsoleLog string
  | ConsoleLogDeployment deployment

record world =
  trace :: "event list"
  fs :: filesystem

definition call :: "event \<Rightarrow> world \<Rightarrow> world" where
  "call ev w = w\<lparr>trace := trace w @ [ev]\<rparr>"

subsection \<open>The deploy task\<close>

record DeployParams =
  channel :: string
  gasPrice :: "number option"
  useRealPriceFeed :: "bool option"
  createUniswapPair :: "bool option"

text \<open>Line 192: \<^verbatim>\<open>useRealPriceFeed ??= env.network.name === "mainnet"\<close>.\<close>

definition resolveUseRealPriceFeed :: "bool option \<Rightarrow> string \<Rightarrow> bool" where
  "resolveUseRealPriceFeed requested network =
     (case requested of None \<Rightarrow> network = ''mainnet'' | Some b \<Rightarrow> b)"

text \<open>Lines 194--196.\<close>

definition checkPriceFeed :: "bool \<Rightarrow> string \<Rightarrow> error + unit" where
  "checkPriceFeed useReal network =
     (if useReal \<and> \<not> hasOracles network
      then Inl (Error (''PriceFeed not supported on '' @ network))
      else Inr ())"

text \<open>Lines 198--204; \<^verbatim>\<open>if (createUniswapPair)\<close> is taken for \<^verbatim>\<open>true\<close> alone.\<close>

definition resolveWiotxAddress :: "bool option \<Rightarrow> string \<Rightarrow> error + js_value" where
  "resolveWiotxAddress requested network =
     (if requested = Some True then
        (if \<not> hasWIOTX network then Inl (Error (''WETH not deployed on '' @ network))
         else Inr (wiotxAddressOf network))
      else Inr JSUndefined)"

text \<open>
  Lines 143--161, \<^verbatim>\<open>env.deployLiquity\<close>: an omitted \<^verbatim>\<open>useRealPriceFeed\<close> is \<^verbatim>\<open>false\<close>;
  the record returned is the one of \<^verbatim>\<open>deployAndSetupContracts\<close> with its \<^verbatim>\<open>version\<close>
  member set to the version of the contracts.
\<close>

definition deployLiquity ::
  "startup \<Rightarrow> environment \<Rightarrow> signer option \<Rightarrow> bool option \<Rightarrow> js_value \<Rightarrow> gas_value
     \<Rightarrow> world \<Rightarrow> (error + deployment) \<times> world" where
  "deployLiquity st env deployer useReal wiotxAddress overrides w =
     (let useRealPriceFeed' = (case useReal of None \<Rightarrow> False | Some b \<Rightarrow> b);
          isDev = (network_name env = ''dev'');
          w1 = call (DeployAndSetupContracts deployer (getContractFactory st)
                       (\<not> useRealPriceFeed') isDev wiotxAddress overrides) w
      in case deployAndSetupContracts env deployer (getContractFactory st)
                (\<not> useRealPriceFeed') isDev wiotxAddress overrides of
           Inl err \<Rightarrow> (Inl err, w1)
         | Inr d \<Rightarrow> (Inr (AList.update ''version'' (JString (contractsVersion st)) d), w1))"

text \<open>Lines 210--233: the check of the price feed and the wiring of the oracles.\<close>

definition wireOracles ::
  "startup \<Rightarrow> environment \<Rightarrow> signer option \<Rightarrow> bool \<Rightarrow> deployment \<Rightarrow> gas_value
     \<Rightarrow> world \<Rightarrow> (error + unit) \<times> world" where
  "wireOracles st env deployer useReal deployed overrides w =
     (if \<not> useReal then (Inr (), w)
      else
        (let w1 = call (ConnectToContracts deployer deployed) w
         in case connectToContracts env deployer deployed of
              Inl err \<Rightarrow> (Inl err, w1)
            | Inr cs \<Rightarrow>
                if priceFeedIsTestnet env (priceFeed cs) then (Inl AssertionError, w1)
                else if \<not> hasOracles (network_name env) then (Inr (), w1)
                else
                  (let tellorAddress = oracleAddress tellor (network_name env);
                       w2 = call (DeployTellorCaller deployer (getContractFactory st)
                                    tellorAddress overrides) w1
                   in case deployTellorCaller env deployer (getContractFactory st)
                             tellorAddress overrides of
                        Inl err \<Rightarrow> (Inl err, w2)
                      | Inr tellorCallerAddress \<Rightarrow>
                          (let w3 = call (ConsoleLog ''Hooking up PriceFeed with oracles ...'') w2;
                               chainlinkAddress = oracleAddress chainlink (network_name env);
                               w4 = call (SetAddresses (priceFeed cs) chainlinkAddress
                                            tellorCallerAddress overrides) w3
                           in case setAddresses env (priceFeed cs) chainlinkAddress
                                     tellorCallerAddress overrides of
                                Inl err \<Rightarrow> (Inl err, w4)
                              | Inr t \<Rightarrow>
                                  (let w5 = call (TxWait t) w4
                                   in case wait env t of
                                        Inl err \<Rightarrow> (Inl err, w5)
                                      | Inr u \<Rightarrow> (Inr (), w5))))))"

text \<open>Lines 235--244: the manifest is written and the record is printed.\<close>

definition manifestDir :: "string \<Rightarrow> string" where
  "manifestDir ch = path_join [''deployments'', ch]"

definition manifestPath :: "string \<Rightarrow> string \<Rightarrow> string" where
  "manifestPath ch network = path_join [''deployments'', ch, network @ ''.json'']"

definition writeManifest ::
  "string \<Rightarrow> string \<Rightarrow> deployment \<Rightarrow> world \<Rightarrow> (error + unit) \<times> world" where
  "writeManifest ch network deployed w =
     (let w1 = call (MkdirSync (manifestDir ch)) w
      in case mkdirSync_recursive (manifestDir ch) (fs w1) of
           (Some err, fs1) \<Rightarrow> (Inl err, w1\<lparr>fs := fs1\<rparr>)
         | (None, fs1) \<Rightarrow>
             (let text = JSON_stringify (JObject deployed) 2;
                  w2 = call (WriteFileSync (manifestPath ch network) text) (w1\<lparr>fs := fs1\<rparr>)
              in case writeFileSync (manifestPath ch network) text (fs w2) of
                   Inl err \<Rightarrow> (Inl err, w2)
                 | Inr fs2 \<Rightarrow>
                     (Inr (), call (ConsoleLog [])
                                (call (ConsoleLogDeployment deployed)
                                   (call (ConsoleLog []) (w2\<lparr>fs := fs2\<rparr>))))))"

text \<open>
  Lines 189--233: everything the action does before it writes. The result is the
  deployment record, complete with its version and with the oracles wired.
\<close>

definition assembleRecord ::
  "startup \<Rightarrow> environment \<Rightarrow> DeployParams \<Rightarrow> world \<Rightarrow> (error + deployment) \<times> world" where
  "assembleRecord st env params w0 =
     (case overridesGasPrice (gasPrice params) of
        Inl err \<Rightarrow> (Inl err, w0)
      | Inr overrides \<Rightarrow>
          (let w1 = call GetSigners w0
           in case getSigners env of
                Inl err \<Rightarrow> (Inl err, w1)
              | Inr signers \<Rightarrow>
                  (let deployer = (case signers of [] \<Rightarrow> None | first # others \<Rightarrow> Some first);
                       useReal = resolveUseRealPriceFeed (useRealPriceFeed params) (network_name env)
                   in case checkPriceFeed useReal (network_name env) of
                        Inl err \<Rightarrow> (Inl err, w1)
                      | Inr u \<Rightarrow>
                          (case resolveWiotxAddress (createUniswapPair params) (network_name env) of
                             Inl err \<Rightarrow> (Inl err, w1)
                           | Inr wiotxAddress \<Rightarrow>
                               (let w2 = call (SetSilent False) w1
                                in case deployLiquity st env deployer (Some useReal)
                                          wiotxAddress overrides w2 of
                                     (Inl err, w3) \<Rightarrow> (Inl err, w3)
                                   | (Inr deployed, w3) \<Rightarrow>
                                       (case wireOracles st env deployer useReal deployed overrides w3 of
                                          (Inl err, w4) \<Rightarrow> (Inl err, w4)
                                        | (Inr u', w4) \<Rightarrow> (Inr deployed, w4)))))))"

text \<open>Lines 188--245: the action of the task, from a file system and no call made yet.\<close>

definition deploy ::
  "startup \<Rightarrow> environment \<Rightarrow> DeployParams \<Rightarrow> filesystem \<Rightarrow> (error + unit) \<times> world" where
  "deploy st env params fs0 =
     (case assembleRecord st env params \<lparr>trace = [], fs = fs0\<rparr> of
        (Inl err, w) \<Rightarrow> (Inl err, w)
      | (Inr deployed, w) \<Rightarrow> writeManifest (channel params) (network_name env) deployed w)"

subsection \<open>Reading a run\<close>

text \<open>The calls that deploy a contract or submit a transaction.\<close>

fun isDeploymentCall :: "event \<Rightarrow> bool" where
  "isDeploymentCall (DeployAndSetupContracts deployer factory useTest isDev wiotx overrides) = True"
| "isDeploymentCall (DeployTellorCaller deployer factory tellorAddress overrides) = True"
| "isDeploymentCall (SetAddresses feed chainlinkAddress adapter overrides) = True"
| "isDeploymentCall ev = False"

text \<open>The calls of the oracle wiring (lines 216--231).\<close>

fun isWiringCall :: "event \<Rightarrow> bool" where
  "isWiringCall (DeployTellorCaller deployer factory tellorAddress overrides) = True"
| "isWiringCall (SetAddresses feed chainlinkAddress adapter overrides) = True"
| "isWiringCall (TxWait t) = True"
| "isWiringCall ev = False"

fun isSetAddresses :: "event \<Rightarrow> bool" where
  "isSetAddresses (SetAddresses feed chainlinkAddress adapter overrides) = True"
| "isSetAddresses ev = False"


text \<open>A name that is one segment of a path.\<close>

definition plainName :: "string \<Rightarrow> bool" where
  "plainName s = (s \<noteq> [] \<and> CHR ''/'' \<notin> set s \<and> s \<noteq> ''.'' \<and> s \<noteq> ''..'')"

text \<open>A name that an entry of a directory can carry.\<close>

definition fileName :: "string \<Rightarrow> bool" where
  "fileName s = (plainName s \<and> length s \<le> 255 \<and> CHR 0x00 \<notin> set s)"

subsection \<open>A sample environment\<close>

text \<open>
  An environment in which every collaborator returns, a record as a deployment could
  return it, and an empty file system, for evaluating runs.
\<close>

definition sampleStartup :: startup where
  "sampleStartup = \<lparr>useLiveVersion = False, contractsVersion = ''1.0.0''\<rparr>"

definition sampleDeployment :: deployment where
  "sampleDeployment =
     [(''chainId'', JNumber ''4689''),
      (''addresses'', JObject [(''priceFeed'', JString ''0xfeed'')]),
      (''version'', JString ''unknown'')]"

definition sampleEnv :: "string \<Rightarrow> environment" where
  "sampleEnv network =
     \<lparr>network_name = network,
      getSigners = Inr [''0xdeployer''],
      deployAndSetupContracts = (\<lambda>deployer factory useTest isDev wiotx overrides. Inr sampleDeployment),
      connectToContracts = (\<lambda>deployer deployed. Inr \<lparr>priceFeed = ''0xfeed''\<rparr>),
      priceFeedIsTestnet = (\<lambda>feed. False),
      deployTellorCaller = (\<lambda>deployer factory tellorAddress overrides. Inr ''0xadapter''),
      setAddresses = (\<lambda>feed chainlinkAddress adapter overrides. Inr ''0xtx''),
      wait = (\<lambda>t. Inr ())\<rparr>"

text \<open>The same environment, except that the deployment throws.\<close>

definition failingEnv :: "string \<Rightarrow> environment" where
  "failingEnv network =
     (sampleEnv network)
       \<lparr>deployAndSetupContracts :=
          (\<lambda>deployer factory useTest isDev wiotx overrides. Inl (Rejected ''insufficient funds''))\<rparr>"

text \<open>The same environment, except that the signers cannot be fetched.\<close>

definition rejectingEnv :: "string \<Rightarrow> environment" where
  "rejectingEnv network =
     (sampleEnv network)\<lparr>getSigners := Inl (Rejected ''could not detect network'')\<rparr>"

definition emptyFs :: filesystem where
  "emptyFs = \<lparr>dirs = {}, files = Map.empty\<rparr>"

definition sampleKeys :: entropy where
  "sampleKeys k = ''0xkey'' @ replicate k CHR ''1''"

definition sampleParams :: DeployParams where
  "sampleParams =
     \<lparr>channel = ''ci'', gasPrice = Some (Dec 20 0),
      useRealPriceFeed = Some True, createUniswapPair = Some True\<rparr>"


section \<open>Properties\<close>

subsection \<open>Hex text and the fixed-point division\<close>

lemma hexDigits_small: "n < 16 \<Longrightarrow> hexDigits n = [hexChar n]"
  by (simp add: hexDigits.simps)

lemma hexDigits_big: "\<not> n < 16 \<Longrightarrow> hexDigits n = hexDigits (n div 16) @ [hexChar (n mod 16)]"
  by (subst hexDigits.simps) simp

lemmas hex_eval = toHexString_def hexDigits_small hexDigits_big hexChar_def

lemma toHexString_20_Gwei: "toHexString 20000000000 = ''0x04a817c800''"
  by (simp add: hex_eval)

lemma scaled_div_whole:
  fixes m x c d :: nat
  assumes "0 < c" and "0 < d"
  shows "(m * (x * d)) * c div (d * c) = m * x"
proof -
  have "(m * (x * d)) * c = (m * x) * (d * c)"
    by (simp add: mult.assoc)
  with assms show ?thesis
    by simp
qed

lemma scaled_div_part:
  fixes m a b c :: nat
  assumes "0 < c" and "0 < a"
  shows "(m * a) * c div ((a * b) * c) = m div b"
proof -
  have "(m * a) * c = (a * c) * m" and "(a * b) * c = (a * c) * b"
    by (simp_all add: mult.assoc mult.left_commute mult.commute)
  then have "(m * a) * c div ((a * b) * c) = ((a * c) * m) div ((a * c) * b)"
    by (simp only:)
  also have "\<dots> = m div b"
    using assms by (intro div_mult_mult1) simp
  finally show ?thesis .
qed

lemma scaled_div_cut:
  fixes m a c d :: nat
  assumes "0 < c"
  shows "(m div a) * c div (d * c) = m div (a * d)"
proof -
  have "(m div a) * c div (d * c) = (c * (m div a)) div (c * d)"
    by (simp only: mult.commute)
  also have "\<dots> = (m div a) div d"
    using assms by (intro div_mult_mult1) simp
  also have "\<dots> = m div (a * d)"
    by (simp add: div_mult2_eq)
  finally show ?thesis .
qed

text \<open>
  Eighteen digits in, nine out: dividing the underlying integer of \<open>m * 10 ^ e\<close> by that of
  \<open>10 ^ 9\<close> leaves \<open>m * 10 ^ (e + 9)\<close>, rounded down.
\<close>

lemma raw_to_wei:
  fixes m :: nat
  shows "(if 0 \<le> e + 18 then m * 10 ^ nat (e + 18) else m div 10 ^ nat (- (e + 18)))
           * 10 ^ 18 div (1000000000 * 10 ^ 18)
         = (if 0 \<le> e + 9 then m * 10 ^ nat (e + 9) else m div 10 ^ nat (- (e + 9)))"
proof -
  define c :: nat where "c = 10 ^ 18"
  define d :: nat where "d = 10 ^ 9"
  have c: "0 < c" and d: "0 < d" by (simp_all add: c_def d_def)
  have d9: "(1000000000::nat) = d" by (simp add: d_def)
  show ?thesis
  proof (cases "0 \<le> e + 9")
    case True
    then have "nat (e + 18) = nat (e + 9) + 9" by simp
    then have "(10::nat) ^ nat (e + 18) = 10 ^ nat (e + 9) * d"
      by (simp only: power_add d_def)
    with True scaled_div_whole [OF c d, of m "10 ^ nat (e + 9)"] show ?thesis
      by (simp add: d9 c_def [symmetric] del: power_numeral)
  next
    case False
    note below = this
    show ?thesis
    proof (cases "0 \<le> e + 18")
      case True
      then have "nat (e + 18) + nat (- (e + 9)) = 9" using below by simp
      then have "d = 10 ^ nat (e + 18) * 10 ^ nat (- (e + 9))"
        by (simp only: power_add [symmetric] d_def)
      with True below scaled_div_part [OF c, of "10 ^ nat (e + 18)" m "10 ^ nat (- (e + 9))"]
      show ?thesis
        by (simp add: d9 c_def [symmetric] del: power_numeral)
    next
      case False
      then have "nat (- (e + 9)) = nat (- (e + 18)) + 9" by simp
      then have "(10::nat) ^ nat (- (e + 9)) = 10 ^ nat (- (e + 18)) * d"
        by (simp only: power_add d_def)
      with False below scaled_div_cut [OF c, of m "10 ^ nat (- (e + 18))" d]
      show ?thesis
        by (simp add: d9 c_def [symmetric] del: power_numeral)
    qed
  qed
qed

lemma overridesGasPrice_positive:
  assumes "0 < m"
  shows "overridesGasPrice (Some (Dec m e)) = Inr (GasHex (toHexString (weiOfGwei m e)))"
proof -
  let ?raw = "if 0 \<le> e + 18 then nat m * 10 ^ nat (e + 18) else nat m div 10 ^ nat (- (e + 18))"
  have read: "Decimal_from (Dec m e) = Inr (Decimal ?raw)"
    using assms by (simp add: PRECISION_def)
  have ten: "Decimal_from (Dec 1000000000 0) = Inr (Decimal (1000000000 * 10 ^ 18))"
    by (simp add: PRECISION_def del: power_numeral)
  have quotient: "Decimal_div (Decimal ?raw) (Dec 1000000000 0) = Inr (Decimal (weiOfGwei m e))"
    unfolding Decimal_div_def ten weiOfGwei_def DIGITS_def PRECISION_def
    using raw_to_wei [of e "nat m"]
    by (simp del: power_numeral)
  show ?thesis
    unfolding overridesGasPrice_def using assms read quotient
    by (simp add: Decimal_hex_def del: Decimal_from.simps)
qed

lemma overridesGasPrice_20: "overridesGasPrice (Some (Dec 20 0)) = Inr (GasHex ''0x04a817c800'')"
  using overridesGasPrice_positive [of 20 0] by (simp add: weiOfGwei_def toHexString_20_Gwei)

subsection \<open>The gas price of the overrides\<close>

text \<open>
  C10. When the \<^verbatim>\<open>gasPrice\<close> parameter is omitted, the \<^verbatim>\<open>gasPrice\<close> of the overrides is
  \<^verbatim>\<open>undefined\<close>. When it is exactly zero, \<^verbatim>\<open>gasPrice &&\<close> stops at its left operand and the
  overrides hold the number zero itself, never a hex string: a zero gas price is not
  converted.
\<close>

theorem C10_gasPrice_omitted_or_zero:
  "overridesGasPrice None = Inr GasUndefined
   \<and> overridesGasPrice (Some (Dec 0 e)) = Inr (GasNumber (Dec 0 e))
   \<and> overridesGasPrice (Some (Dec 0 e)) \<noteq> Inr (GasHex text)"
  by (simp add: overridesGasPrice_def)

text \<open>
  C2, as stated, for every provided \<^verbatim>\<open>gasPrice\<close>: it fails for a provided price of zero, which
  the overrides keep as the number \<open>0\<close> and not as the hex text of zero wei.
\<close>

theorem C2_zero_gasPrice_counterexample:
  "overridesGasPrice (Some (Dec 0 0)) = Inr (GasNumber (Dec 0 0))
   \<and> overridesGasPrice (Some (Dec 0 0)) \<noteq> Inr (GasHex (toHexString (weiOfGwei 0 0)))"
  by (simp add: overridesGasPrice_def)

text \<open>
  C2, amended. For every provided \<^verbatim>\<open>gasPrice\<close> above zero, given in Gwei, the \<^verbatim>\<open>gasPrice\<close>
  of the overrides is the hex encoding of its value in wei, rounded down to a whole wei;
  a price of \<open>m * 10 ^ e\<close> Gwei with \<open>e \<ge> -9\<close> is a whole number of wei and is converted
  exactly. In particular 20 yields the hex encoding of 20_000_000_000, the text
  \<^verbatim>\<open>0x04a817c800\<close>.
\<close>

theorem C2_gasPrice_in_wei:
  "(0 < m \<longrightarrow>
      overridesGasPrice (Some (Dec m e)) = Inr (GasHex (toHexString (weiOfGwei m e))))
   \<and> (0 \<le> e + 9 \<longrightarrow> weiOfGwei m e = nat m * 10 ^ nat (e + 9))
   \<and> overridesGasPrice (Some (Dec 20 0)) = Inr (GasHex (toHexString 20000000000))
   \<and> toHexString 20000000000 = ''0x04a817c800''"
  using overridesGasPrice_positive [of m e] overridesGasPrice_20
  by (simp add: weiOfGwei_def toHexString_20_Gwei)

theorem C2_gasPrice_in_wei_witness:
  "(0::int) < 15 \<and> (0::int) \<le> - 1 + 9
   \<and> overridesGasPrice (Some (Dec 15 (- 1))) = Inr (GasHex ''0x59682f00'')
   \<and> weiOfGwei 15 (- 1) = 1500000000"
  using C2_gasPrice_in_wei [of 15 "- 1"]
  by (simp add: hex_eval)

subsection \<open>JSON texts\<close>

lemmas json_eval = JSON_stringify_def wrapJSON_def joinWith_def quoteJSONString_def quoteChar_def
  numeral_2_eq_2

text \<open>The sample record with its version set, as \<^verbatim>\<open>JSON.stringify(record, undefined, 2)\<close> prints it.\<close>

lemma JSON_stringify_sample:
  "JSON_stringify (JObject (AList.update ''version'' (JString ''1.0.0'') sampleDeployment)) 2
     = ''{'' @ newline
       @ ''  '' @ quoteMark @ ''chainId'' @ quoteMark @ '': 4689,'' @ newline
       @ ''  '' @ quoteMark @ ''addresses'' @ quoteMark @ '': {'' @ newline
       @ ''    '' @ quoteMark @ ''priceFeed'' @ quoteMark @ '': '' @ quoteMark @ ''0xfeed'' @ quoteMark @ newline
       @ ''  },'' @ newline
       @ ''  '' @ quoteMark @ ''version'' @ quoteMark @ '': '' @ quoteMark @ ''1.0.0'' @ quoteMark @ newline
       @ ''}''"
  by (simp add: json_eval sampleDeployment_def quoteMark_def newline_def)

text \<open>That text has the version member, and nowhere the address of the sample adapter.\<close>

lemma sample_manifest_with_version:
  "sublist (quoteMark @ ''version'' @ quoteMark @ '': '' @ quoteMark @ ''1.0.0'' @ quoteMark)
       (JSON_stringify (JObject (AList.update ''version'' (JString ''1.0.0'') sampleDeployment)) 2)"
  by (simp add: JSON_stringify_sample quoteMark_def newline_def sublist_code)

lemma sample_manifest_without_adapter:
  "\<not> sublist ''0xadapter''
       (JSON_stringify (JObject (AList.update ''version'' (JString ''1.0.0'') sampleDeployment)) 2)"
  by (simp add: JSON_stringify_sample quoteMark_def newline_def sublist_code)

text \<open>Without a gap nothing is inserted; empty arrays and objects stay closed.\<close>

lemma JSON_stringify_compact:
  "JSON_stringify (JObject [(''a'', JArray []), (''b'', JObject []), (''c'', JArray [JNull, JBool True])]) 0
     = ''{'' @ quoteMark @ ''a'' @ quoteMark @ '':[],'' @ quoteMark @ ''b'' @ quoteMark @ '':{},''
        @ quoteMark @ ''c'' @ quoteMark @ '':[null,true]}''"
  by (simp add: json_eval quoteMark_def)

lemma quoteJSONString_escapes:
  "quoteJSONString [CHR ''a'', CHR 0x22, CHR 0x5C, CHR 0x0A, CHR 0x01]
     = quoteMark @ ''a'' @ [CHR 0x5C] @ quoteMark @ [CHR 0x5C, CHR 0x5C] @ [CHR 0x5C] @ ''n''
        @ [CHR 0x5C] @ ''u0001'' @ quoteMark"
  by (simp add: quoteJSONString_def quoteChar_def quoteMark_def hexChar_def)

subsection \<open>The tables\<close>

lemmas table_eval = hasOracles_def hasWIOTX_def inObject_def oracleAddresses_def wiotxAddresses_def
  objectPrototypeProperties_def oracleAddress_def wiotxAddressOf_def

lemma hasOracles_mainnet: "hasOracles ''mainnet''"
  by (simp add: hasOracles_def inObject_def oracleAddresses_def)

lemma hasWIOTX_mainnet: "hasWIOTX ''mainnet''"
  by (simp add: hasWIOTX_def inObject_def wiotxAddresses_def)

lemma hasOracles_testnet: "\<not> hasOracles ''testnet''"
  by (simp add: table_eval)

lemma hasWIOTX_testnet: "hasWIOTX ''testnet''"
  by (simp add: hasWIOTX_def inObject_def wiotxAddresses_def)

lemma hasOracles_dev: "\<not> hasOracles ''dev''"
  by (simp add: table_eval)

lemma hasWIOTX_dev: "\<not> hasWIOTX ''dev''"
  by (simp add: table_eval)

lemma map_of_version:
  "map_of (AList.update ''version'' v deployed) ''version'' = Some v"
  by (simp add: update_conv')

subsection \<open>What the steps before the write leave alone\<close>















subsection \<open>Paths of plain names\<close>

lemma splitPath_plain: "CHR ''/'' \<notin> set a \<Longrightarrow> splitPath a = [a]"
  by (induction a) auto

lemma splitPath_append:
  "CHR ''/'' \<notin> set a \<Longrightarrow> splitPath (a @ CHR ''/'' # rest) = a # splitPath rest"
  by (induction a) auto

lemma pushSegment_plain: "plainName seg \<Longrightarrow> pushSegment allow res seg = res @ [seg]"
  by (simp add: pushSegment_def plainName_def)

lemma plainName_json: "CHR ''/'' \<notin> set network \<Longrightarrow> plainName (network @ ''.json'')"
proof -
  assume n: "CHR ''/'' \<notin> set network"
  have "length (network @ ''.json'') \<noteq> length ''.''" and "length (network @ ''.json'') \<noteq> length ''..''"
    by simp_all
  then have "network @ ''.json'' \<noteq> ''.''" and "network @ ''.json'' \<noteq> ''..''"
    by metis+
  with n show ?thesis
    by (simp add: plainName_def)
qed

lemma joinWith_two: "joinWith sep [a, b] = a @ sep @ b"
  by (simp add: joinWith_def)

lemma joinWith_three: "joinWith sep [a, b, c] = a @ sep @ b @ sep @ c"
  by (simp add: joinWith_def)

lemma plainName_deployments: "plainName ''deployments''"
  by (simp add: plainName_def)

lemma normalizeString_two:
  assumes "plainName a" and "plainName b"
  shows "normalizeString (a @ CHR ''/'' # b) allow = [a, b]"
  using assms
  by (simp add: normalizeString_def splitPath_append splitPath_plain pushSegment_plain plainName_def)

lemma normalizeString_three:
  assumes "plainName a" and "plainName b" and "plainName c"
  shows "normalizeString (a @ CHR ''/'' # b @ CHR ''/'' # c) allow = [a, b, c]"
  using assms
  by (simp add: normalizeString_def splitPath_append splitPath_plain pushSegment_plain plainName_def)

lemma manifestDir_plain:
  assumes "plainName ch"
  shows "manifestDir ch = ''deployments/'' @ ch"
    and "resolvePath (manifestDir ch) = [''deployments'', ch]"
proof -
  have ne: "ch \<noteq> []" and slash: "CHR ''/'' \<notin> set ch"
    using assms by (simp_all add: plainName_def)
  from ne have "last ch \<in> set ch"
    by (rule last_in_set)
  with slash have last: "last ch \<noteq> CHR ''/''"
    by metis
  have norm: "normalizeString (''deployments'' @ CHR ''/'' # ch) allow = [''deployments'', ch]" for allow
    using normalizeString_two [OF plainName_deployments assms] .
  show dir: "manifestDir ch = ''deployments/'' @ ch"
    using ne last norm [of True]
    by (simp add: manifestDir_def path_join_def path_normalize_def joinWith_two)
  show "resolvePath (manifestDir ch) = [''deployments'', ch]"
    using norm [of True] by (simp add: dir resolvePath_def)
qed

lemma manifestPath_plain:
  assumes "plainName ch" and "CHR ''/'' \<notin> set network"
  shows "manifestPath ch network = ''deployments/'' @ ch @ ''/'' @ network @ ''.json''"
    and "resolvePath (manifestPath ch network) = [''deployments'', ch, network @ ''.json'']"
proof -
  have ne: "ch \<noteq> []" using assms by (simp add: plainName_def)
  have last: "last (network @ ''.json'') \<noteq> CHR ''/''" by simp
  have norm: "normalizeString (''deployments'' @ CHR ''/'' # ch @ CHR ''/'' # network @ ''.json'') allow
                = [''deployments'', ch, network @ ''.json'']" for allow
    using normalizeString_three [OF plainName_deployments assms(1) plainName_json [OF assms(2)]] .
  show p: "manifestPath ch network = ''deployments/'' @ ch @ ''/'' @ network @ ''.json''"
    using ne norm [of True]
    by (simp add: manifestPath_def path_join_def path_normalize_def joinWith_three)
  show "resolvePath (manifestPath ch network) = [''deployments'', ch, network @ ''.json'']"
    using norm [of True] by (simp add: p resolvePath_def)
qed

lemma pathChain_two: "pathChain [a, b] = [[a], [a, b]]"
  by (simp add: pathChain_def upt_rec)

lemma pathChain_three: "pathChain [a, b, c] = [[a], [a, b], [a, b, c]]"
  by (simp add: pathChain_def upt_rec)

lemma pathError_none:
  assumes "CHR 0x00 \<notin> set path" and "path \<noteq> []" and "length path < 4096"
  shows "pathError path = None"
  using assms by (simp add: pathError_def)

lemma existsDir_named: "plainName seg \<Longrightarrow> existsDir filesys (p @ [seg]) = (p @ [seg] \<in> dirs filesys)"
  by (auto simp: existsDir_def plainName_def)

lemma mkdirSync_two:
  assumes path: "resolvePath path = [a, b]" and ok: "pathError path = None"
    and a: "plainName a" "length a \<le> 255" and b: "plainName b" "length b \<le> 255"
    and free: "files filesys [a] = None" "files filesys [a, b] = None"
  shows "mkdirSync_recursive path filesys = (None, filesys\<lparr>dirs := dirs filesys \<union> {[a], [a, b]}\<rparr>)"
proof -
  have top: "existsDir fsys [a] = ([a] \<in> dirs fsys)" for fsys
    using existsDir_named [OF a(1), of fsys "[]"] by simp
  have sub: "existsDir fsys [a, b] = ([a, b] \<in> dirs fsys)" for fsys
    using existsDir_named [OF b(1), of fsys "[a]"] by simp
  have "mkdirEach [[a], [a, b]] filesys = (None, filesys\<lparr>dirs := dirs filesys \<union> {[a], [a, b]}\<rparr>)"
    using a(2) b(2) free
    by (auto simp: top sub insert_absorb insert_commute)
  then show ?thesis
    by (simp add: mkdirSync_recursive_def path ok pathChain_two)
qed

lemma writeFileSync_created:
  assumes "resolvePath path = [a, b, c]" and "pathError path = None"
    and "existsDir filesys [a]" and "existsDir filesys [a, b]"
    and "\<not> existsDir filesys [a, b, c]" and "length c \<le> 255"
  shows "writeFileSync path content filesys
           = Inr (filesys\<lparr>files := (files filesys)([a, b, c] \<mapsto> content)\<rparr>)"
  using assms by (simp add: writeFileSync_def pathChain_three)

lemma fileName_json:
  assumes "fileName (network @ ''.json'')"
  shows "CHR ''/'' \<notin> set network" and "CHR 0x00 \<notin> set network" and "length network \<le> 250"
  using assms by (simp_all add: fileName_def plainName_def)

lemma manifest_pathError:
  assumes ch: "fileName ch" and network: "fileName (network @ ''.json'')"
  shows "pathError (manifestDir ch) = None" and "pathError (manifestPath ch network) = None"
proof -
  have plain: "plainName ch" and short: "length ch \<le> 255" and nul: "CHR 0x00 \<notin> set ch"
    using ch by (simp_all add: fileName_def)
  note net = fileName_json [OF network]
  show "pathError (manifestDir ch) = None"
    using short nul
    by (intro pathError_none) (simp_all add: manifestDir_plain(1) [OF plain])
  show "pathError (manifestPath ch network) = None"
    using short nul net
    by (intro pathError_none) (simp_all add: manifestPath_plain(1) [OF plain net(1)])
qed

lemma writeManifest_plain:
  assumes ch: "fileName ch" and network: "fileName (network @ ''.json'')"
    and free: "files (fs w) [''deployments''] = None" "files (fs w) [''deployments'', ch] = None"
    and nodir: "[''deployments'', ch, network @ ''.json''] \<notin> dirs (fs w)"
  shows "writeManifest ch network deployed w
     = (Inr (),
        \<lparr>trace = trace w @ [MkdirSync (manifestDir ch),
                   WriteFileSync (manifestPath ch network)
                     (JSON_stringify (JObject deployed) 2),
                   ConsoleLog [], ConsoleLogDeployment deployed, ConsoleLog []],
         fs = \<lparr>dirs = dirs (fs w) \<union> {[''deployments''], [''deployments'', ch]},
               files = (files (fs w))([''deployments'', ch, network @ ''.json'']
                          \<mapsto> JSON_stringify (JObject deployed) 2)\<rparr>\<rparr>)"
proof -
  let ?target = "[''deployments'', ch, network @ ''.json'']"
  have plain: "plainName ch" and short: "length ch \<le> 255"
    using ch by (simp_all add: fileName_def)
  have named: "plainName (network @ ''.json'')" and fits: "length (network @ ''.json'') \<le> 255"
    using network by (simp_all add: fileName_def)
  note slash = fileName_json(1) [OF network]
  note ok = manifest_pathError [OF ch network]
  define fs1 where "fs1 = (fs w)\<lparr>dirs := dirs (fs w) \<union> {[''deployments''], [''deployments'', ch]}\<rparr>"
  have top: "length ''deployments'' \<le> 255"
    by simp
  have mk: "mkdirSync_recursive (manifestDir ch) (fs w) = (None, fs1)"
    unfolding fs1_def
    using mkdirSync_two [OF manifestDir_plain(2) [OF plain] ok(1) plainName_deployments top
        plain short free] .
  have notdir: "\<not> existsDir fs1 ?target"
    using existsDir_named [OF named, of fs1 "[''deployments'', ch]"] nodir
    by (simp add: fs1_def)
  have parents: "existsDir fs1 [''deployments'']" "existsDir fs1 [''deployments'', ch]"
    by (simp_all add: existsDir_def fs1_def)
  have wr: "writeFileSync (manifestPath ch network) content fs1
      = Inr (fs1\<lparr>files := (files fs1)(?target \<mapsto> content)\<rparr>)" for content
    using writeFileSync_created [OF manifestPath_plain(2) [OF plain slash] ok(2) parents notdir fits] .
  have "writeManifest ch network deployed w
     = (Inr (),
        \<lparr>trace = trace w @ [MkdirSync (manifestDir ch),
                   WriteFileSync (manifestPath ch network)
                     (JSON_stringify (JObject deployed) 2),
                   ConsoleLog [], ConsoleLogDeployment deployed, ConsoleLog []],
         fs = fs1\<lparr>files := (files fs1)(?target \<mapsto> JSON_stringify (JObject deployed) 2)\<rparr>\<rparr>)"
    by (simp add: writeManifest_def Let_def call_def mk wr)
  then show ?thesis
    by (simp add: fs1_def)
qed

subsection \<open>Evaluating a run\<close>

lemmas path_eval = manifestDir_def manifestPath_def path_join_def path_normalize_def
  normalizeString_def pushSegment_def joinWith_def resolvePath_def
  mkdirSync_recursive_def writeFileSync_def existsDir_def pathError_def pathChain_def upt_rec

lemmas run_eval = deploy_def assembleRecord_def writeManifest_def wireOracles_def deployLiquity_def
  call_def checkPriceFeed_def resolveWiotxAddress_def resolveUseRealPriceFeed_def
  getContractFactory_def Let_def overridesGasPrice_20

lemmas sample_eval = sampleEnv_def sampleStartup_def sampleParams_def emptyFs_def

lemma sample_facts:
  "network_name (sampleEnv network) = network"
  "getSigners (sampleEnv network) = Inr [''0xdeployer'']"
  "deployAndSetupContracts (sampleEnv network) deployer factory useTest isDev wiotx overrides
     = Inr sampleDeployment"
  "connectToContracts (sampleEnv network) deployer deployed = Inr \<lparr>priceFeed = ''0xfeed''\<rparr>"
  "priceFeedIsTestnet (sampleEnv network) feed = False"
  "deployTellorCaller (sampleEnv network) deployer factory tellorAddress overrides = Inr ''0xadapter''"
  "setAddresses (sampleEnv network) feed chainlinkAddress adapter overrides = Inr ''0xtx''"
  "wait (sampleEnv network) t = Inr ()"
  "channel sampleParams = ''ci''"
  "gasPrice sampleParams = Some (Dec 20 0)"
  "useRealPriceFeed sampleParams = Some True"
  "createUniswapPair sampleParams = Some True"
  "contractsVersion sampleStartup = ''1.0.0''"
  "getContractFactory sampleStartup = CompiledArtifacts"
  "dirs emptyFs = {}"
  "files emptyFs p = None"
  by (simp_all add: sample_eval getContractFactory_def)

lemma failing_facts: "network_name (failingEnv network) = network"
  by (simp add: failingEnv_def sampleEnv_def)

lemma rejecting_facts: "network_name (rejectingEnv network) = network"
  by (simp add: rejectingEnv_def sampleEnv_def)

lemma mainnet_run_succeeds:
  assumes net: "network_name env = ''mainnet''" and ch: "channel params = ''ci''"
    and real: "useRealPriceFeed params = Some True" and pair: "createUniswapPair params = Some True"
    and gas: "overridesGasPrice (gasPrice params) = Inr overrides"
    and sig: "getSigners env = Inr signers"
    and dep: "deployer = (case signers of [] \<Rightarrow> None | first # others \<Rightarrow> Some first)"
    and das: "deployAndSetupContracts env deployer (getContractFactory st) False False
        (JSString ''0xa00744882684c3e4747faefd68d283ea44099d03'') overrides = Inr deployed"
    and stamp: "stamped = AList.update ''version'' (JString (contractsVersion st)) deployed"
    and con: "connectToContracts env deployer stamped = Inr cs"
    and real_feed: "\<not> priceFeedIsTestnet env (priceFeed cs)"
    and dtc: "deployTellorCaller env deployer (getContractFactory st)
        (JSString ''0x88dF592F8eb5D7Bd38bFeF7dEb0fBc02cf3778a0'') overrides = Inr adapter"
    and sa: "setAddresses env (priceFeed cs) (JSString ''0x5f4eC3Df9cbd43714FE2740f5E3616155c5b8419'')
        adapter overrides = Inr t"
    and mined: "wait env t = Inr ()"
    and free: "files disk [''deployments''] = None" "files disk [''deployments'', ''ci''] = None"
    and nodir: "[''deployments'', ''ci'', ''mainnet.json''] \<notin> dirs disk"
  shows "fst (deploy st env params disk) = Inr ()
   \<and> trace (snd (deploy st env params disk))
       = [GetSigners, SetSilent False,
          DeployAndSetupContracts deployer (getContractFactory st) False False
            (JSString ''0xa00744882684c3e4747faefd68d283ea44099d03'') overrides,
          ConnectToContracts deployer stamped,
          DeployTellorCaller deployer (getContractFactory st)
            (JSString ''0x88dF592F8eb5D7Bd38bFeF7dEb0fBc02cf3778a0'') overrides,
          ConsoleLog ''Hooking up PriceFeed with oracles ...'',
          SetAddresses (priceFeed cs) (JSString ''0x5f4eC3Df9cbd43714FE2740f5E3616155c5b8419'')
            adapter overrides,
          TxWait t,
          MkdirSync ''deployments/ci'',
          WriteFileSync ''deployments/ci/mainnet.json'' (JSON_stringify (JObject stamped) 2),
          ConsoleLog [], ConsoleLogDeployment stamped, ConsoleLog []]
   \<and> filter isWiringCall (trace (snd (deploy st env params disk)))
       = [DeployTellorCaller deployer (getContractFactory st)
            (JSString ''0x88dF592F8eb5D7Bd38bFeF7dEb0fBc02cf3778a0'') overrides,
          SetAddresses (priceFeed cs) (JSString ''0x5f4eC3Df9cbd43714FE2740f5E3616155c5b8419'')
            adapter overrides,
          TxWait t]
   \<and> files (fs (snd (deploy st env params disk)))
       = (files disk)([''deployments'', ''ci'', ''mainnet.json'']
            \<mapsto> JSON_stringify (JObject stamped) 2)
   \<and> map_of stamped ''version'' = Some (JString (contractsVersion st))"
proof -
  let ?calls = "[GetSigners, SetSilent False,
          DeployAndSetupContracts deployer (getContractFactory st) False False
            (JSString ''0xa00744882684c3e4747faefd68d283ea44099d03'') overrides,
          ConnectToContracts deployer stamped,
          DeployTellorCaller deployer (getContractFactory st)
            (JSString ''0x88dF592F8eb5D7Bd38bFeF7dEb0fBc02cf3778a0'') overrides,
          ConsoleLog ''Hooking up PriceFeed with oracles ...'',
          SetAddresses (priceFeed cs) (JSString ''0x5f4eC3Df9cbd43714FE2740f5E3616155c5b8419'')
            adapter overrides,
          TxWait t]"
  have wiotx: "resolveWiotxAddress (Some True) ''mainnet''
      = Inr (JSString ''0xa00744882684c3e4747faefd68d283ea44099d03'')"
    by (simp add: resolveWiotxAddress_def hasWIOTX_mainnet wiotxAddressOf_def wiotxAddresses_def)
  have tellor: "oracleAddress tellor ''mainnet'' = JSString ''0x88dF592F8eb5D7Bd38bFeF7dEb0fBc02cf3778a0''"
    and chainlink: "oracleAddress chainlink ''mainnet'' = JSString ''0x5f4eC3Df9cbd43714FE2740f5E3616155c5b8419''"
    by (simp_all add: oracleAddress_def oracleAddresses_def)
  have dl: "deployLiquity st env deployer (Some True)
              (JSString ''0xa00744882684c3e4747faefd68d283ea44099d03'') overrides w
      = (Inr stamped, call (DeployAndSetupContracts deployer (getContractFactory st) False False
            (JSString ''0xa00744882684c3e4747faefd68d283ea44099d03'') overrides) w)" for w
    by (simp add: deployLiquity_def Let_def net das stamp [symmetric])
  have wo: "wireOracles st env deployer True stamped overrides w
      = (Inr (), w\<lparr>trace := trace w @ [ConnectToContracts deployer stamped,
          DeployTellorCaller deployer (getContractFactory st)
            (JSString ''0x88dF592F8eb5D7Bd38bFeF7dEb0fBc02cf3778a0'') overrides,
          ConsoleLog ''Hooking up PriceFeed with oracles ...'',
          SetAddresses (priceFeed cs) (JSString ''0x5f4eC3Df9cbd43714FE2740f5E3616155c5b8419'')
            adapter overrides,
          TxWait t]\<rparr>)" for w
    by (simp add: wireOracles_def Let_def call_def hasOracles_mainnet tellor chainlink
          net con real_feed dtc sa mined)
  have assembled: "assembleRecord st env params \<lparr>trace = [], fs = disk\<rparr>
      = (Inr stamped, \<lparr>trace = ?calls, fs = disk\<rparr>)"
    by (simp add: assembleRecord_def Let_def checkPriceFeed_def resolveUseRealPriceFeed_def
          hasOracles_mainnet wiotx dl wo call_def net real pair gas sig dep [symmetric])
  have plain: "plainName ''ci''" and slash: "CHR ''/'' \<notin> set ''mainnet''"
    by (simp_all add: plainName_def)
  have named: "fileName ''ci''" "fileName (''mainnet'' @ ''.json'')"
    by (simp_all add: fileName_def plainName_def)
  have written: "writeManifest ''ci'' ''mainnet'' stamped \<lparr>trace = ?calls, fs = disk\<rparr>
     = (Inr (),
        \<lparr>trace = ?calls @ [MkdirSync (manifestDir ''ci''),
                   WriteFileSync (manifestPath ''ci'' ''mainnet'')
                     (JSON_stringify (JObject stamped) 2),
                   ConsoleLog [], ConsoleLogDeployment stamped, ConsoleLog []],
         fs = \<lparr>dirs = dirs disk \<union> {[''deployments''], [''deployments'', ''ci'']},
               files = (files disk)([''deployments'', ''ci'', ''mainnet'' @ ''.json'']
                          \<mapsto> JSON_stringify (JObject stamped) 2)\<rparr>\<rparr>)"
    using writeManifest_plain [OF named, of "\<lparr>trace = ?calls, fs = disk\<rparr>" stamped]
      free nodir
    by simp
  have paths: "manifestDir ''ci'' = ''deployments/ci''"
      "manifestPath ''ci'' ''mainnet'' = ''deployments/ci/mainnet.json''"
    using manifestDir_plain(1) [OF plain] manifestPath_plain(1) [OF plain slash]
    by simp_all
  have run: "deploy st env params disk
     = (Inr (),
        \<lparr>trace = ?calls @ [MkdirSync ''deployments/ci'',
                   WriteFileSync ''deployments/ci/mainnet.json''
                     (JSON_stringify (JObject stamped) 2),
                   ConsoleLog [], ConsoleLogDeployment stamped, ConsoleLog []],
         fs = \<lparr>dirs = dirs disk \<union> {[''deployments''], [''deployments'', ''ci'']},
               files = (files disk)([''deployments'', ''ci'', ''mainnet.json'']
                          \<mapsto> JSON_stringify (JObject stamped) 2)\<rparr>\<rparr>)"
    by (simp add: deploy_def assembled written paths net ch)
  have version: "map_of stamped ''version'' = Some (JString (contractsVersion st))"
    using stamp map_of_version [of "JString (contractsVersion st)" deployed] by simp
  show ?thesis
    by (simp add: run version)
qed


lemma sample_run_mainnet:
  "deploy sampleStartup (sampleEnv ''mainnet'') sampleParams emptyFs
     = (Inr (),
        \<lparr>trace =
           [GetSigners, SetSilent False,
            DeployAndSetupContracts (Some ''0xdeployer'') CompiledArtifacts False False
              (JSString ''0xa00744882684c3e4747faefd68d283ea44099d03'') (GasHex ''0x04a817c800''),
            ConnectToContracts (Some ''0xdeployer'')
              (AList.update ''version'' (JString ''1.0.0'') sampleDeployment),
            DeployTellorCaller (Some ''0xdeployer'') CompiledArtifacts
              (JSString ''0x88dF592F8eb5D7Bd38bFeF7dEb0fBc02cf3778a0'') (GasHex ''0x04a817c800''),
            ConsoleLog ''Hooking up PriceFeed with oracles ...'',
            SetAddresses ''0xfeed'' (JSString ''0x5f4eC3Df9cbd43714FE2740f5E3616155c5b8419'')
              ''0xadapter'' (GasHex ''0x04a817c800''),
            TxWait ''0xtx'',
            MkdirSync ''deployments/ci'',
            WriteFileSync ''deployments/ci/mainnet.json''
              (JSON_stringify
                 (JObject (AList.update ''version'' (JString ''1.0.0'') sampleDeployment)) 2),
            ConsoleLog [],
            ConsoleLogDeployment (AList.update ''version'' (JString ''1.0.0'') sampleDeployment),
            ConsoleLog []],
         fs = \<lparr>dirs = {[''deployments''], [''deployments'', ''ci'']},
               files = [[''deployments'', ''ci'', ''mainnet.json'']
                  \<mapsto> JSON_stringify
                      (JObject (AList.update ''version'' (JString ''1.0.0'') sampleDeployment)) 2]\<rparr>\<rparr>)"
  by (simp add: run_eval table_eval path_eval sample_eval insert_commute)

lemma sample_run_dev:
  "deploy sampleStartup (sampleEnv ''dev'')
      (sampleParams\<lparr>useRealPriceFeed := None, createUniswapPair := None\<rparr>) emptyFs
     = (Inr (),
        \<lparr>trace =
           [GetSigners, SetSilent False,
            DeployAndSetupContracts (Some ''0xdeployer'') CompiledArtifacts True True
              JSUndefined (GasHex ''0x04a817c800''),
            MkdirSync ''deployments/ci'',
            WriteFileSync ''deployments/ci/dev.json''
              (JSON_stringify
                 (JObject (AList.update ''version'' (JString ''1.0.0'') sampleDeployment)) 2),
            ConsoleLog [],
            ConsoleLogDeployment (AList.update ''version'' (JString ''1.0.0'') sampleDeployment),
            ConsoleLog []],
         fs = \<lparr>dirs = {[''deployments''], [''deployments'', ''ci'']},
               files = [[''deployments'', ''ci'', ''dev.json'']
                  \<mapsto> JSON_stringify
                      (JObject (AList.update ''version'' (JString ''1.0.0'') sampleDeployment)) 2]\<rparr>\<rparr>)"
  by (simp add: run_eval table_eval path_eval sample_eval insert_commute)

lemma sample_version:
  "AList.update ''version'' (JString ''1.0.0'') sampleDeployment
     = [(''chainId'', JNumber ''4689''),
        (''addresses'', JObject [(''priceFeed'', JString ''0xfeed'')]),
        (''version'', JString ''1.0.0'')]"
  by (simp add: sampleDeployment_def)

lemma sample_run_failing:
  "deploy sampleStartup (failingEnv ''mainnet'') sampleParams emptyFs
     = (Inl (Rejected ''insufficient funds''),
        \<lparr>trace =
           [GetSigners, SetSilent False,
            DeployAndSetupContracts (Some ''0xdeployer'') CompiledArtifacts False False
              (JSString ''0xa00744882684c3e4747faefd68d283ea44099d03'') (GasHex ''0x04a817c800'')],
         fs = emptyFs\<rparr>)"
  by (simp add: run_eval table_eval sample_eval failingEnv_def)

lemma sample_run_testnet:
  "deploy sampleStartup (sampleEnv ''testnet'') sampleParams emptyFs
     = (Inl (Error ''PriceFeed not supported on testnet''), \<lparr>trace = [GetSigners], fs = emptyFs\<rparr>)"
  by (simp add: run_eval hasOracles_testnet sample_eval)

lemmas task_defs = deploy_def assembleRecord_def checkPriceFeed_def resolveWiotxAddress_def
          writeManifest_def wireOracles_def deployLiquity_def call_def Let_def

subsection \<open>The end-to-end run\<close>

text \<open>
  C1, as stated: with channel \<^verbatim>\<open>ci\<close>, network \<^verbatim>\<open>testnet\<close>, \<^verbatim>\<open>useRealPriceFeed = true\<close> and
  \<^verbatim>\<open>createUniswapPair = true\<close> the run does not succeed. The table of oracle addresses has
  no entry for \<^verbatim>\<open>testnet\<close> (only the table of wrapped tokens has), so line 195 throws after
  the signers were fetched: nothing is deployed, nothing is wired, and no file is written.
  Nor does the manifest of a run that succeeds hold the adapter's address: on \<^verbatim>\<open>mainnet\<close>,
  with the same parameters, the file written is the text of the record, in which the address
  returned by \<^verbatim>\<open>deployTellorCaller\<close> does not occur.
\<close>

theorem C1_end_to_end_counterexample:
  "channel sampleParams = ''ci'' \<and> useRealPriceFeed sampleParams = Some True
   \<and> createUniswapPair sampleParams = Some True
   \<and> network_name (sampleEnv ''testnet'') = ''testnet''
   \<and> hasWIOTX ''testnet'' \<and> \<not> hasOracles ''testnet''
   \<and> fst (deploy sampleStartup (sampleEnv ''testnet'') sampleParams emptyFs)
        = Inl (Error ''PriceFeed not supported on testnet'')
   \<and> trace (snd (deploy sampleStartup (sampleEnv ''testnet'') sampleParams emptyFs)) = [GetSigners]
   \<and> \<not> list_ex isWiringCall
          (trace (snd (deploy sampleStartup (sampleEnv ''testnet'') sampleParams emptyFs)))
   \<and> files (fs (snd (deploy sampleStartup (sampleEnv ''testnet'') sampleParams emptyFs)))
        [''deployments'', ''ci'', ''testnet.json''] = None
   \<and> fst (deploy sampleStartup (sampleEnv ''mainnet'') sampleParams emptyFs) = Inr ()
   \<and> deployTellorCaller (sampleEnv ''mainnet'') (Some ''0xdeployer'') CompiledArtifacts
          (JSString ''0x88dF592F8eb5D7Bd38bFeF7dEb0fBc02cf3778a0'') (GasHex ''0x04a817c800'')
        = Inr ''0xadapter''
   \<and> files (fs (snd (deploy sampleStartup (sampleEnv ''mainnet'') sampleParams emptyFs)))
        [''deployments'', ''ci'', ''mainnet.json'']
       = Some (JSON_stringify
                (JObject (AList.update ''version'' (JString ''1.0.0'') sampleDeployment)) 2)
   \<and> \<not> sublist ''0xadapter''
         (JSON_stringify (JObject (AList.update ''version'' (JString ''1.0.0'') sampleDeployment)) 2)"
  by (simp add: sample_run_testnet sample_run_mainnet sample_facts hasOracles_testnet
        hasWIOTX_testnet sample_manifest_without_adapter)

text \<open>
  C1, amended. \<^verbatim>\<open>testnet\<close> has a wrapped-token address and no oracle addresses;
  \<^verbatim>\<open>mainnet\<close> has both. On \<^verbatim>\<open>mainnet\<close>, a run with channel \<^verbatim>\<open>ci\<close>,
  \<^verbatim>\<open>useRealPriceFeed = true\<close> and \<^verbatim>\<open>createUniswapPair = true\<close> in which every external call
  returns, the price feed is not the test feed and nothing blocks the path, succeeds: the
  calls are exactly the thirteen listed, so the oracle wiring occurs exactly once (one
  adapter deployment, one \<^verbatim>\<open>setAddresses\<close>, one wait), and \<^verbatim>\<open>deployments/ci/mainnet.json\<close>
  holds the JSON text of the record returned by \<^verbatim>\<open>deployAndSetupContracts\<close> with its
  \<^verbatim>\<open>version\<close> member set. The adapter's address is an argument of \<^verbatim>\<open>setAddresses\<close>; the
  record written is the one assembled before the adapter was deployed.
\<close>

theorem C1_run_on_mainnet:
  assumes net: "network_name env = ''mainnet''" and ch: "channel params = ''ci''"
    and real: "useRealPriceFeed params = Some True" and pair: "createUniswapPair params = Some True"
    and gas: "overridesGasPrice (gasPrice params) = Inr overrides"
    and sig: "getSigners env = Inr signers"
    and dep: "deployer = (case signers of [] \<Rightarrow> None | first # others \<Rightarrow> Some first)"
    and das: "deployAndSetupContracts env deployer (getContractFactory st) False False
        (JSString ''0xa00744882684c3e4747faefd68d283ea44099d03'') overrides = Inr deployed"
    and stamp: "stamped = AList.update ''version'' (JString (contractsVersion st)) deployed"
    and con: "connectToContracts env deployer stamped = Inr cs"
    and real_feed: "\<not> priceFeedIsTestnet env (priceFeed cs)"
    and dtc: "deployTellorCaller env deployer (getContractFactory st)
        (JSString ''0x88dF592F8eb5D7Bd38bFeF7dEb0fBc02cf3778a0'') overrides = Inr adapter"
    and sa: "setAddresses env (priceFeed cs) (JSString ''0x5f4eC3Df9cbd43714FE2740f5E3616155c5b8419'')
        adapter overrides = Inr t"
    and mined: "wait env t = Inr ()"
    and free: "files disk [''deployments''] = None" "files disk [''deployments'', ''ci''] = None"
    and nodir: "[''deployments'', ''ci'', ''mainnet.json''] \<notin> dirs disk"
  shows "hasOracles ''mainnet'' \<and> hasWIOTX ''mainnet''
   \<and> \<not> hasOracles ''testnet'' \<and> hasWIOTX ''testnet''
   \<and> fst (deploy st env params disk) = Inr ()
   \<and> trace (snd (deploy st env params disk))
       = [GetSigners, SetSilent False,
          DeployAndSetupContracts deployer (getContractFactory st) False False
            (JSString ''0xa00744882684c3e4747faefd68d283ea44099d03'') overrides,
          ConnectToContracts deployer stamped,
          DeployTellorCaller deployer (getContractFactory st)
            (JSString ''0x88dF592F8eb5D7Bd38bFeF7dEb0fBc02cf3778a0'') overrides,
          ConsoleLog ''Hooking up PriceFeed with oracles ...'',
          SetAddresses (priceFeed cs) (JSString ''0x5f4eC3Df9cbd43714FE2740f5E3616155c5b8419'')
            adapter overrides,
          TxWait t,
          MkdirSync ''deployments/ci'',
          WriteFileSync ''deployments/ci/mainnet.json'' (JSON_stringify (JObject stamped) 2),
          ConsoleLog [], ConsoleLogDeployment stamped, ConsoleLog []]
   \<and> filter isWiringCall (trace (snd (deploy st env params disk)))
       = [DeployTellorCaller deployer (getContractFactory st)
            (JSString ''0x88dF592F8eb5D7Bd38bFeF7dEb0fBc02cf3778a0'') overrides,
          SetAddresses (priceFeed cs) (JSString ''0x5f4eC3Df9cbd43714FE2740f5E3616155c5b8419'')
            adapter overrides,
          TxWait t]
   \<and> files (fs (snd (deploy st env params disk)))
       = (files disk)([''deployments'', ''ci'', ''mainnet.json'']
            \<mapsto> JSON_stringify (JObject stamped) 2)
   \<and> map_of stamped ''version'' = Some (JString (contractsVersion st))"
  using mainnet_run_succeeds [OF assms]
    hasOracles_mainnet hasWIOTX_mainnet hasOracles_testnet hasWIOTX_testnet
  by blast

theorem C1_run_on_mainnet_witness:
  "network_name (sampleEnv ''mainnet'') = ''mainnet'' \<and> channel sampleParams = ''ci''
   \<and> fst (deploy sampleStartup (sampleEnv ''mainnet'') sampleParams emptyFs) = Inr ()
   \<and> filter isWiringCall
         (trace (snd (deploy sampleStartup (sampleEnv ''mainnet'') sampleParams emptyFs)))
       = [DeployTellorCaller (Some ''0xdeployer'') CompiledArtifacts
            (JSString ''0x88dF592F8eb5D7Bd38bFeF7dEb0fBc02cf3778a0'') (GasHex ''0x04a817c800''),
          SetAddresses ''0xfeed'' (JSString ''0x5f4eC3Df9cbd43714FE2740f5E3616155c5b8419'')
            ''0xadapter'' (GasHex ''0x04a817c800''),
          TxWait ''0xtx'']
   \<and> files (fs (snd (deploy sampleStartup (sampleEnv ''mainnet'') sampleParams emptyFs)))
        [''deployments'', ''ci'', ''mainnet.json'']
       = Some (JSON_stringify
                (JObject [(''chainId'', JNumber ''4689''),
                          (''addresses'', JObject [(''priceFeed'', JString ''0xfeed'')]),
                          (''version'', JString ''1.0.0'')]) 2)
   \<and> sublist (quoteMark @ ''version'' @ quoteMark @ '': '' @ quoteMark @ ''1.0.0'' @ quoteMark)
        (JSON_stringify
           (JObject [(''chainId'', JNumber ''4689''),
                     (''addresses'', JObject [(''priceFeed'', JString ''0xfeed'')]),
                     (''version'', JString ''1.0.0'')]) 2)"
  using C1_run_on_mainnet
    [where env = "sampleEnv ''mainnet''" and params = sampleParams and st = sampleStartup
       and disk = emptyFs and overrides = "GasHex ''0x04a817c800''"
       and signers = "[''0xdeployer'']" and deployer = "Some ''0xdeployer''"
       and deployed = sampleDeployment
       and stamped = "AList.update ''version'' (JString ''1.0.0'') sampleDeployment"
       and cs = "\<lparr>priceFeed = ''0xfeed''\<rparr>" and adapter = "''0xadapter''" and t = "''0xtx''"]
    sample_manifest_with_version
  by (simp add: sample_facts sample_version overridesGasPrice_20)

subsection \<open>The oracle wiring\<close>

lemma manifest_not_wiring:
  "filter isWiringCall (trace (snd (writeManifest ch network deployed w)))
     = filter isWiringCall (trace w)"
  by (simp add: writeManifest_def Let_def call_def split: sum.splits prod.splits option.splits)

lemma deploy_wiring:
  "filter isWiringCall (trace (snd (deploy st env params fs0)))
     = filter isWiringCall (trace (snd (assembleRecord st env params \<lparr>trace = [], fs = fs0\<rparr>)))"
  by (cases "assembleRecord st env params \<lparr>trace = [], fs = fs0\<rparr>")
     (simp add: deploy_def manifest_not_wiring split: sum.splits)

lemma wireOracles_wiring:
  "filter isWiringCall (trace (snd (wireOracles st env deployer useReal deployed overrides w)))
     = filter isWiringCall (trace w)
       @ (if \<not> (useReal \<and> hasOracles (network_name env)) then []
          else case connectToContracts env deployer deployed of
                 Inl err \<Rightarrow> []
               | Inr cs \<Rightarrow>
                   if priceFeedIsTestnet env (priceFeed cs) then []
                   else DeployTellorCaller deployer (getContractFactory st)
                          (oracleAddress tellor (network_name env)) overrides
                        # (case deployTellorCaller env deployer (getContractFactory st)
                                  (oracleAddress tellor (network_name env)) overrides of
                             Inl err \<Rightarrow> []
                           | Inr adapter \<Rightarrow>
                               SetAddresses (priceFeed cs) (oracleAddress chainlink (network_name env))
                                 adapter overrides
                               # (case setAddresses env (priceFeed cs)
                                         (oracleAddress chainlink (network_name env))
                                         adapter overrides of
                                    Inl err \<Rightarrow> []
                                  | Inr t \<Rightarrow> [TxWait t])))"
  by (simp add: wireOracles_def Let_def call_def split: sum.splits)

lemma deployLiquity_wiring:
  "filter isWiringCall (trace (snd (deployLiquity st env deployer useReal wiotxAddress overrides w)))
     = filter isWiringCall (trace w)"
  by (simp add: deployLiquity_def Let_def call_def split: sum.splits)

lemma snd_wired:
  "snd (case p of (Inl err, w) \<Rightarrow> (Inl err, w) | (Inr u, w) \<Rightarrow> (Inr d, w)) = snd p"
  by (simp split: prod.splits sum.splits)

lemma deploy_wiring_calls:
  "filter isWiringCall (trace (snd (deploy st env params fs0)))
     = (case overridesGasPrice (gasPrice params) of
          Inl err \<Rightarrow> []
        | Inr overrides \<Rightarrow>
            (case getSigners env of
               Inl err \<Rightarrow> []
             | Inr signers \<Rightarrow>
                 if \<not> (resolveUseRealPriceFeed (useRealPriceFeed params) (network_name env)
                        \<and> hasOracles (network_name env)) then []
                 else
                   (case resolveWiotxAddress (createUniswapPair params) (network_name env) of
                      Inl err \<Rightarrow> []
                    | Inr wiotxAddress \<Rightarrow>
                        (case deployAndSetupContracts env
                                (case signers of [] \<Rightarrow> None | first # others \<Rightarrow> Some first)
                                (getContractFactory st) False (network_name env = ''dev'')
                                wiotxAddress overrides of
                           Inl err \<Rightarrow> []
                         | Inr deployed \<Rightarrow>
                             (case connectToContracts env
                                     (case signers of [] \<Rightarrow> None | first # others \<Rightarrow> Some first)
                                     (AList.update ''version'' (JString (contractsVersion st)) deployed) of
                                Inl err \<Rightarrow> []
                              | Inr cs \<Rightarrow>
                                  if priceFeedIsTestnet env (priceFeed cs) then []
                                  else
                                    DeployTellorCaller
                                      (case signers of [] \<Rightarrow> None | first # others \<Rightarrow> Some first)
                                      (getContractFactory st)
                                      (oracleAddress tellor (network_name env)) overrides
                                    # (case deployTellorCaller env
                                              (case signers of [] \<Rightarrow> None | first # others \<Rightarrow> Some first)
                                              (getContractFactory st)
                                              (oracleAddress tellor (network_name env)) overrides of
                                         Inl err \<Rightarrow> []
                                       | Inr adapter \<Rightarrow>
                                           SetAddresses (priceFeed cs)
                                             (oracleAddress chainlink (network_name env))
                                             adapter overrides
                                           # (case setAddresses env (priceFeed cs)
                                                     (oracleAddress chainlink (network_name env))
                                                     adapter overrides of
                                                Inl err \<Rightarrow> []
                                              | Inr t \<Rightarrow> [TxWait t])))))))"
  by (simp add: deploy_wiring assembleRecord_def Let_def call_def checkPriceFeed_def
        deployLiquity_def snd_wired wireOracles_wiring split: sum.splits)

lemma wiring_calls_if:
  assumes real: "resolveUseRealPriceFeed (useRealPriceFeed params) (network_name env)"
    and oracles: "hasOracles (network_name env)"
    and gas: "overridesGasPrice (gasPrice params) = Inr overrides"
    and sig: "getSigners env = Inr signers"
    and wiotx: "resolveWiotxAddress (createUniswapPair params) (network_name env) = Inr wiotxAddress"
    and das: "deployAndSetupContracts env (case signers of [] \<Rightarrow> None | first # others \<Rightarrow> Some first)
        (getContractFactory st) False (network_name env = ''dev'') wiotxAddress overrides
        = Inr deployed"
    and con: "connectToContracts env (case signers of [] \<Rightarrow> None | first # others \<Rightarrow> Some first)
        (AList.update ''version'' (JString (contractsVersion st)) deployed) = Inr cs"
    and real_feed: "\<not> priceFeedIsTestnet env (priceFeed cs)"
  shows "filter isWiringCall (trace (snd (deploy st env params fs0)))
     = DeployTellorCaller (case signers of [] \<Rightarrow> None | first # others \<Rightarrow> Some first)
         (getContractFactory st) (oracleAddress tellor (network_name env)) overrides
       # (case deployTellorCaller env (case signers of [] \<Rightarrow> None | first # others \<Rightarrow> Some first)
                 (getContractFactory st) (oracleAddress tellor (network_name env)) overrides of
            Inl err \<Rightarrow> []
          | Inr adapter \<Rightarrow>
              SetAddresses (priceFeed cs) (oracleAddress chainlink (network_name env)) adapter overrides
              # (case setAddresses env (priceFeed cs) (oracleAddress chainlink (network_name env))
                        adapter overrides of
                   Inl err \<Rightarrow> []
                 | Inr t \<Rightarrow> [TxWait t]))"
  by (simp add: deploy_wiring_calls assms)

lemma wiring_only_if:
  assumes "list_ex isWiringCall (trace (snd (deploy st env params fs0)))"
  shows "resolveUseRealPriceFeed (useRealPriceFeed params) (network_name env)
    \<and> hasOracles (network_name env)
    \<and> (\<exists>overrides signers wiotxAddress deployed cs.
          overridesGasPrice (gasPrice params) = Inr overrides
        \<and> getSigners env = Inr signers
        \<and> resolveWiotxAddress (createUniswapPair params) (network_name env) = Inr wiotxAddress
        \<and> deployAndSetupContracts env (case signers of [] \<Rightarrow> None | first # others \<Rightarrow> Some first)
            (getContractFactory st) False (network_name env = ''dev'') wiotxAddress overrides
            = Inr deployed
        \<and> connectToContracts env (case signers of [] \<Rightarrow> None | first # others \<Rightarrow> Some first)
            (AList.update ''version'' (JString (contractsVersion st)) deployed) = Inr cs
        \<and> \<not> priceFeedIsTestnet env (priceFeed cs))"
proof -
  from assms have "filter isWiringCall (trace (snd (deploy st env params fs0))) \<noteq> []"
    by (simp add: list_ex_iff filter_empty_conv)
  then show ?thesis
    unfolding deploy_wiring_calls
    by (auto split: sum.splits if_splits)
qed

lemma adapter_before_setAddresses:
  "\<forall>feed chainlinkAddress adapter overrides.
      SetAddresses feed chainlinkAddress adapter overrides
        \<in> set (trace (snd (deploy st env params fs0))) \<longrightarrow>
      (\<exists>deployer.
          DeployTellorCaller deployer (getContractFactory st)
              (oracleAddress tellor (network_name env)) overrides
            \<in> set (takeWhile (\<lambda>ev. \<not> isSetAddresses ev) (trace (snd (deploy st env params fs0))))
        \<and> deployTellorCaller env deployer (getContractFactory st)
              (oracleAddress tellor (network_name env)) overrides = Inr adapter)"
  by (auto simp: task_defs split: sum.splits prod.splits if_splits option.splits)

text \<open>
  C3, as stated: the wiring is not executed in every run in which the resolved
  \<^verbatim>\<open>useRealPriceFeed\<close> is true and \<open>hasOracles\<close> holds of the network. On \<^verbatim>\<open>mainnet\<close>, with
  the real price feed requested, a run whose \<^verbatim>\<open>deployAndSetupContracts\<close> throws (line 208)
  ends there: both conditions hold and no call of the wiring is made.
\<close>

theorem C3_oracle_wiring_counterexample:
  "resolveUseRealPriceFeed (useRealPriceFeed sampleParams) (network_name (failingEnv ''mainnet''))
   \<and> hasOracles (network_name (failingEnv ''mainnet''))
   \<and> fst (deploy sampleStartup (failingEnv ''mainnet'') sampleParams emptyFs)
        = Inl (Rejected ''insufficient funds'')
   \<and> \<not> list_ex isWiringCall
          (trace (snd (deploy sampleStartup (failingEnv ''mainnet'') sampleParams emptyFs)))"
  by (simp add: sample_run_failing failing_facts sample_facts hasOracles_mainnet
        resolveUseRealPriceFeed_def)

text \<open>
  C3, amended. In every run the oracle wiring step (lines 215--232) is executed, that is
  one of its calls is made, if and only if the resolved \<^verbatim>\<open>useRealPriceFeed\<close> is true,
  \<open>hasOracles\<close> holds of the network and every step before it returns: the gas price
  converts, the signers and the wrapped-token address are obtained, the deployment returns
  its record, the contracts connect and the price feed is not the test feed. When it is
  executed, its calls are, in this order and with the run's overrides: the adapter
  deployment (\<^verbatim>\<open>TellorCaller\<close>, at the network's Tellor address); once that has returned,
  \<^verbatim>\<open>setAddresses\<close> on the price feed with the network's Chainlink address and the address
  the adapter deployment returned; once that has returned, the wait for its transaction;
  and no other. Whenever \<^verbatim>\<open>setAddresses\<close> is called, the adapter deployment is among the
  calls made before it and has returned the adapter address passed.
\<close>

theorem C3_oracle_wiring:
  "(list_ex isWiringCall (trace (snd (deploy st env params fs0)))
      = (resolveUseRealPriceFeed (useRealPriceFeed params) (network_name env)
         \<and> hasOracles (network_name env)
         \<and> (\<exists>overrides signers wiotxAddress deployed cs.
              overridesGasPrice (gasPrice params) = Inr overrides
            \<and> getSigners env = Inr signers
            \<and> resolveWiotxAddress (createUniswapPair params) (network_name env) = Inr wiotxAddress
            \<and> deployAndSetupContracts env
                (case signers of [] \<Rightarrow> None | first # others \<Rightarrow> Some first)
                (getContractFactory st) False (network_name env = ''dev'') wiotxAddress overrides
                = Inr deployed
            \<and> connectToContracts env (case signers of [] \<Rightarrow> None | first # others \<Rightarrow> Some first)
                (AList.update ''version'' (JString (contractsVersion st)) deployed) = Inr cs
            \<and> \<not> priceFeedIsTestnet env (priceFeed cs))))
   \<and> (\<forall>overrides signers wiotxAddress deployed cs.
      resolveUseRealPriceFeed (useRealPriceFeed params) (network_name env) \<longrightarrow>
      hasOracles (network_name env) \<longrightarrow>
      overridesGasPrice (gasPrice params) = Inr overrides \<longrightarrow>
      getSigners env = Inr signers \<longrightarrow>
      resolveWiotxAddress (createUniswapPair params) (network_name env) = Inr wiotxAddress \<longrightarrow>
      deployAndSetupContracts env (case signers of [] \<Rightarrow> None | first # others \<Rightarrow> Some first)
        (getContractFactory st) False (network_name env = ''dev'') wiotxAddress overrides
        = Inr deployed \<longrightarrow>
      connectToContracts env (case signers of [] \<Rightarrow> None | first # others \<Rightarrow> Some first)
        (AList.update ''version'' (JString (contractsVersion st)) deployed) = Inr cs \<longrightarrow>
      \<not> priceFeedIsTestnet env (priceFeed cs) \<longrightarrow>
      filter isWiringCall (trace (snd (deploy st env params fs0)))
        = DeployTellorCaller (case signers of [] \<Rightarrow> None | first # others \<Rightarrow> Some first)
            (getContractFactory st) (oracleAddress tellor (network_name env)) overrides
          # (case deployTellorCaller env (case signers of [] \<Rightarrow> None | first # others \<Rightarrow> Some first)
                    (getContractFactory st) (oracleAddress tellor (network_name env)) overrides of
               Inl err \<Rightarrow> []
             | Inr adapter \<Rightarrow>
                 SetAddresses (priceFeed cs) (oracleAddress chainlink (network_name env))
                   adapter overrides
                 # (case setAddresses env (priceFeed cs) (oracleAddress chainlink (network_name env))
                           adapter overrides of
                      Inl err \<Rightarrow> []
                    | Inr t \<Rightarrow> [TxWait t])))
   \<and> (\<forall>feed chainlinkAddress adapter overrides.
      SetAddresses feed chainlinkAddress adapter overrides
        \<in> set (trace (snd (deploy st env params fs0))) \<longrightarrow>
      (\<exists>deployer.
          DeployTellorCaller deployer (getContractFactory st)
              (oracleAddress tellor (network_name env)) overrides
            \<in> set (takeWhile (\<lambda>ev. \<not> isSetAddresses ev) (trace (snd (deploy st env params fs0))))
        \<and> deployTellorCaller env deployer (getContractFactory st)
              (oracleAddress tellor (network_name env)) overrides = Inr adapter))"
proof (intro conjI)
  let ?reached = "resolveUseRealPriceFeed (useRealPriceFeed params) (network_name env)
         \<and> hasOracles (network_name env)
         \<and> (\<exists>overrides signers wiotxAddress deployed cs.
              overridesGasPrice (gasPrice params) = Inr overrides
            \<and> getSigners env = Inr signers
            \<and> resolveWiotxAddress (createUniswapPair params) (network_name env) = Inr wiotxAddress
            \<and> deployAndSetupContracts env
                (case signers of [] \<Rightarrow> None | first # others \<Rightarrow> Some first)
                (getContractFactory st) False (network_name env = ''dev'') wiotxAddress overrides
                = Inr deployed
            \<and> connectToContracts env (case signers of [] \<Rightarrow> None | first # others \<Rightarrow> Some first)
                (AList.update ''version'' (JString (contractsVersion st)) deployed) = Inr cs
            \<and> \<not> priceFeedIsTestnet env (priceFeed cs))"
  show "list_ex isWiringCall (trace (snd (deploy st env params fs0))) = ?reached"
  proof
    assume "list_ex isWiringCall (trace (snd (deploy st env params fs0)))"
    then show ?reached
      by (rule wiring_only_if)
  next
    assume ?reached
    then obtain overrides signers wiotxAddress deployed cs
      where real: "resolveUseRealPriceFeed (useRealPriceFeed params) (network_name env)"
        and oracles: "hasOracles (network_name env)"
        and gas: "overridesGasPrice (gasPrice params) = Inr overrides"
        and sig: "getSigners env = Inr signers"
        and wiotx: "resolveWiotxAddress (createUniswapPair params) (network_name env) = Inr wiotxAddress"
        and das: "deployAndSetupContracts env
            (case signers of [] \<Rightarrow> None | first # others \<Rightarrow> Some first)
            (getContractFactory st) False (network_name env = ''dev'') wiotxAddress overrides
            = Inr deployed"
        and con: "connectToContracts env (case signers of [] \<Rightarrow> None | first # others \<Rightarrow> Some first)
            (AList.update ''version'' (JString (contractsVersion st)) deployed) = Inr cs"
        and real_feed: "\<not> priceFeedIsTestnet env (priceFeed cs)"
      by blast
    from wiring_calls_if [OF real oracles gas sig wiotx das con real_feed, of fs0]
    have "filter isWiringCall (trace (snd (deploy st env params fs0))) \<noteq> []"
      by simp
    then show "list_ex isWiringCall (trace (snd (deploy st env params fs0)))"
      by (simp add: list_ex_iff filter_empty_conv)
  qed
  show "\<forall>overrides signers wiotxAddress deployed cs.
      resolveUseRealPriceFeed (useRealPriceFeed params) (network_name env) \<longrightarrow>
      hasOracles (network_name env) \<longrightarrow>
      overridesGasPrice (gasPrice params) = Inr overrides \<longrightarrow>
      getSigners env = Inr signers \<longrightarrow>
      resolveWiotxAddress (createUniswapPair params) (network_name env) = Inr wiotxAddress \<longrightarrow>
      deployAndSetupContracts env (case signers of [] \<Rightarrow> None | first # others \<Rightarrow> Some first)
        (getContractFactory st) False (network_name env = ''dev'') wiotxAddress overrides
        = Inr deployed \<longrightarrow>
      connectToContracts env (case signers of [] \<Rightarrow> None | first # others \<Rightarrow> Some first)
        (AList.update ''version'' (JString (contractsVersion st)) deployed) = Inr cs \<longrightarrow>
      \<not> priceFeedIsTestnet env (priceFeed cs) \<longrightarrow>
      filter isWiringCall (trace (snd (deploy st env params fs0)))
        = DeployTellorCaller (case signers of [] \<Rightarrow> None | first # others \<Rightarrow> Some first)
            (getContractFactory st) (oracleAddress tellor (network_name env)) overrides
          # (case deployTellorCaller env (case signers of [] \<Rightarrow> None | first # others \<Rightarrow> Some first)
                    (getContractFactory st) (oracleAddress tellor (network_name env)) overrides of
               Inl err \<Rightarrow> []
             | Inr adapter \<Rightarrow>
                 SetAddresses (priceFeed cs) (oracleAddress chainlink (network_name env))
                   adapter overrides
                 # (case setAddresses env (priceFeed cs) (oracleAddress chainlink (network_name env))
                           adapter overrides of
                      Inl err \<Rightarrow> []
                    | Inr t \<Rightarrow> [TxWait t]))"
    by (intro allI impI) (rule wiring_calls_if)
  show "\<forall>feed chainlinkAddress adapter overrides.
      SetAddresses feed chainlinkAddress adapter overrides
        \<in> set (trace (snd (deploy st env params fs0))) \<longrightarrow>
      (\<exists>deployer.
          DeployTellorCaller deployer (getContractFactory st)
              (oracleAddress tellor (network_name env)) overrides
            \<in> set (takeWhile (\<lambda>ev. \<not> isSetAddresses ev) (trace (snd (deploy st env params fs0))))
        \<and> deployTellorCaller env deployer (getContractFactory st)
              (oracleAddress tellor (network_name env)) overrides = Inr adapter)"
    by (rule adapter_before_setAddresses)
qed

theorem C3_oracle_wiring_witness:
  "resolveUseRealPriceFeed (useRealPriceFeed sampleParams) (network_name (sampleEnv ''mainnet''))
   \<and> hasOracles (network_name (sampleEnv ''mainnet''))
   \<and> overridesGasPrice (gasPrice sampleParams) = Inr (GasHex ''0x04a817c800'')
   \<and> getSigners (sampleEnv ''mainnet'') = Inr [''0xdeployer'']
   \<and> \<not> priceFeedIsTestnet (sampleEnv ''mainnet'') ''0xfeed''
   \<and> list_ex isWiringCall
        (trace (snd (deploy sampleStartup (sampleEnv ''mainnet'') sampleParams emptyFs)))
   \<and> filter isWiringCall
        (trace (snd (deploy sampleStartup (sampleEnv ''mainnet'') sampleParams emptyFs)))
       = [DeployTellorCaller (Some ''0xdeployer'') CompiledArtifacts
            (JSString ''0x88dF592F8eb5D7Bd38bFeF7dEb0fBc02cf3778a0'') (GasHex ''0x04a817c800''),
          SetAddresses ''0xfeed'' (JSString ''0x5f4eC3Df9cbd43714FE2740f5E3616155c5b8419'')
            ''0xadapter'' (GasHex ''0x04a817c800''),
          TxWait ''0xtx'']
   \<and> SetAddresses ''0xfeed'' (JSString ''0x5f4eC3Df9cbd43714FE2740f5E3616155c5b8419'')
          ''0xadapter'' (GasHex ''0x04a817c800'')
        \<in> set (trace (snd (deploy sampleStartup (sampleEnv ''mainnet'') sampleParams emptyFs)))
   \<and> deployTellorCaller (sampleEnv ''mainnet'') (Some ''0xdeployer'') CompiledArtifacts
          (JSString ''0x88dF592F8eb5D7Bd38bFeF7dEb0fBc02cf3778a0'') (GasHex ''0x04a817c800'')
        = Inr ''0xadapter''"
proof -
  note wiring = C3_oracle_wiring [of sampleStartup "sampleEnv ''mainnet''" sampleParams emptyFs]
  let ?run = "trace (snd (deploy sampleStartup (sampleEnv ''mainnet'') sampleParams emptyFs))"
  have real: "resolveUseRealPriceFeed (useRealPriceFeed sampleParams)
      (network_name (sampleEnv ''mainnet''))"
    by (simp add: sample_facts resolveUseRealPriceFeed_def)
  have oracles: "hasOracles (network_name (sampleEnv ''mainnet''))"
    by (simp add: sample_facts hasOracles_mainnet)
  have gas: "overridesGasPrice (gasPrice sampleParams) = Inr (GasHex ''0x04a817c800'')"
    by (simp add: sample_facts overridesGasPrice_20)
  have sig: "getSigners (sampleEnv ''mainnet'') = Inr [''0xdeployer'']"
    by (simp add: sample_facts)
  have wiotx: "resolveWiotxAddress (createUniswapPair sampleParams)
      (network_name (sampleEnv ''mainnet''))
      = Inr (JSString ''0xa00744882684c3e4747faefd68d283ea44099d03'')"
    by (simp add: sample_facts resolveWiotxAddress_def hasWIOTX_mainnet wiotxAddressOf_def
          wiotxAddresses_def)
  have das: "deployAndSetupContracts (sampleEnv ''mainnet'')
      (case [''0xdeployer''] of [] \<Rightarrow> None | first # others \<Rightarrow> Some first)
      (getContractFactory sampleStartup) False (network_name (sampleEnv ''mainnet'') = ''dev'')
      (JSString ''0xa00744882684c3e4747faefd68d283ea44099d03'') (GasHex ''0x04a817c800'')
      = Inr sampleDeployment"
    by (simp add: sample_facts)
  have con: "connectToContracts (sampleEnv ''mainnet'')
      (case [''0xdeployer''] of [] \<Rightarrow> None | first # others \<Rightarrow> Some first)
      (AList.update ''version'' (JString (contractsVersion sampleStartup)) sampleDeployment)
      = Inr \<lparr>priceFeed = ''0xfeed''\<rparr>"
    by (simp add: sample_facts)
  have real_feed: "\<not> priceFeedIsTestnet (sampleEnv ''mainnet'') (priceFeed \<lparr>priceFeed = ''0xfeed''\<rparr>)"
    by (simp add: sample_facts)
  have tellor: "oracleAddress tellor ''mainnet'' = JSString ''0x88dF592F8eb5D7Bd38bFeF7dEb0fBc02cf3778a0''"
    and chainlink: "oracleAddress chainlink ''mainnet'' = JSString ''0x5f4eC3Df9cbd43714FE2740f5E3616155c5b8419''"
    by (simp_all add: oracleAddress_def oracleAddresses_def)
  from wiring [THEN conjunct2, THEN conjunct1, rule_format,
      OF real oracles gas sig wiotx das con real_feed]
  have calls: "filter isWiringCall ?run
       = [DeployTellorCaller (Some ''0xdeployer'') CompiledArtifacts
            (JSString ''0x88dF592F8eb5D7Bd38bFeF7dEb0fBc02cf3778a0'') (GasHex ''0x04a817c800''),
          SetAddresses ''0xfeed'' (JSString ''0x5f4eC3Df9cbd43714FE2740f5E3616155c5b8419'')
            ''0xadapter'' (GasHex ''0x04a817c800''),
          TxWait ''0xtx'']"
    by (simp add: sample_facts tellor chainlink)
  have "filter isWiringCall ?run \<noteq> []"
    by (simp add: calls)
  then have executed: "list_ex isWiringCall ?run"
    by (simp add: list_ex_iff filter_empty_conv)
  have "SetAddresses ''0xfeed'' (JSString ''0x5f4eC3Df9cbd43714FE2740f5E3616155c5b8419'')
          ''0xadapter'' (GasHex ''0x04a817c800'') \<in> set (filter isWiringCall ?run)"
    by (simp add: calls)
  then have submitted: "SetAddresses ''0xfeed'' (JSString ''0x5f4eC3Df9cbd43714FE2740f5E3616155c5b8419'')
          ''0xadapter'' (GasHex ''0x04a817c800'') \<in> set ?run"
    by simp
  from wiring [THEN conjunct2, THEN conjunct2, rule_format, OF submitted]
  obtain deployer where returned: "deployTellorCaller (sampleEnv ''mainnet'') deployer
      (getContractFactory sampleStartup) (oracleAddress tellor (network_name (sampleEnv ''mainnet'')))
      (GasHex ''0x04a817c800'') = Inr ''0xadapter''"
    by blast
  then have adapter: "deployTellorCaller (sampleEnv ''mainnet'') (Some ''0xdeployer'') CompiledArtifacts
          (JSString ''0x88dF592F8eb5D7Bd38bFeF7dEb0fBc02cf3778a0'') (GasHex ''0x04a817c800'')
        = Inr ''0xadapter''"
    by (simp add: sample_facts)
  from real oracles gas sig real_feed executed calls submitted adapter show ?thesis
    by simp
qed

subsection \<open>Requests the network cannot serve\<close>

lemma sample_run_rejecting:
  "deploy sampleStartup (rejectingEnv network) params emptyFs
     = (case overridesGasPrice (gasPrice params) of
          Inl err \<Rightarrow> (Inl err, \<lparr>trace = [], fs = emptyFs\<rparr>)
        | Inr overrides \<Rightarrow>
            (Inl (Rejected ''could not detect network''), \<lparr>trace = [GetSigners], fs = emptyFs\<rparr>))"
  by (simp add: deploy_def assembleRecord_def call_def Let_def rejectingEnv_def sampleEnv_def
        split: sum.splits)

lemma sample_run_negative:
  "deploy sampleStartup env (sampleParams\<lparr>gasPrice := Some (Dec (- 5) 0)\<rparr>) emptyFs
     = (Inl (BadDecimalFormat (Dec (- 5) 0)), \<lparr>trace = [], fs = emptyFs\<rparr>)"
  by (simp add: deploy_def assembleRecord_def overridesGasPrice_def sampleParams_def)

text \<open>
  C4, as stated: the error is not always one that names the network. The gas price is
  converted and the signers are fetched (lines 189--190) before the price feed is checked
  (line 194). On \<^verbatim>\<open>testnet\<close>, which has no oracle addresses, with the real price feed
  requested: when the signers cannot be fetched, the run ends with that rejection; when
  the gas price is \<open>-5\<close>, it ends with the error of the conversion, before any call. Neither
  error names the network.
\<close>

theorem C4_no_oracles_counterexample:
  "\<not> hasOracles (network_name (rejectingEnv ''testnet''))
   \<and> \<not> hasOracles (network_name (sampleEnv ''testnet''))
   \<and> useRealPriceFeed sampleParams = Some True
   \<and> deploy sampleStartup (rejectingEnv ''testnet'') sampleParams emptyFs
        = (Inl (Rejected ''could not detect network''), \<lparr>trace = [GetSigners], fs = emptyFs\<rparr>)
   \<and> useRealPriceFeed (sampleParams\<lparr>gasPrice := Some (Dec (- 5) 0)\<rparr>) = Some True
   \<and> deploy sampleStartup (sampleEnv ''testnet'') (sampleParams\<lparr>gasPrice := Some (Dec (- 5) 0)\<rparr>)
          emptyFs
        = (Inl (BadDecimalFormat (Dec (- 5) 0)), \<lparr>trace = [], fs = emptyFs\<rparr>)"
  by (simp add: sample_run_rejecting sample_run_negative sample_facts overridesGasPrice_20
        hasOracles_testnet rejecting_facts)

text \<open>
  C4, amended. On a network without oracle addresses, a run that asks for the real price
  feed fails, whatever its environment, before any contract is deployed or any
  transaction submitted, and leaves the file system as it was. The error is the error of
  the gas price conversion when the gas price does not convert, else the rejection of
  \<^verbatim>\<open>getSigners\<close> when the signers cannot be fetched, else the configuration error
  \<^verbatim>\<open>PriceFeed not supported on N\<close>, which names the network.
\<close>

theorem C4_no_oracles:
  assumes "\<not> hasOracles (network_name env)" and "useRealPriceFeed params = Some True"
  shows "(\<exists>err. fst (deploy st env params fs0) = Inl err)
       \<and> \<not> list_ex isDeploymentCall (trace (snd (deploy st env params fs0)))
       \<and> fs (snd (deploy st env params fs0)) = fs0
       \<and> fst (deploy st env params fs0)
           = (case overridesGasPrice (gasPrice params) of
                Inl err \<Rightarrow> Inl err
              | Inr overrides \<Rightarrow>
                  (case getSigners env of
                     Inl err \<Rightarrow> Inl err
                   | Inr signers \<Rightarrow>
                       Inl (Error (''PriceFeed not supported on '' @ network_name env))))
       \<and> (\<forall>overrides signers.
             overridesGasPrice (gasPrice params) = Inr overrides \<longrightarrow>
             getSigners env = Inr signers \<longrightarrow>
             fst (deploy st env params fs0)
               = Inl (Error (''PriceFeed not supported on '' @ network_name env)))"
  using assms
  by (simp add: deploy_def assembleRecord_def checkPriceFeed_def resolveUseRealPriceFeed_def
        call_def Let_def split: sum.splits)

theorem C4_no_oracles_witness:
  "\<not> hasOracles (network_name (sampleEnv ''testnet''))
   \<and> useRealPriceFeed sampleParams = Some True
   \<and> fst (deploy sampleStartup (sampleEnv ''testnet'') sampleParams emptyFs)
        = Inl (Error ''PriceFeed not supported on testnet'')
   \<and> \<not> list_ex isDeploymentCall
          (trace (snd (deploy sampleStartup (sampleEnv ''testnet'') sampleParams emptyFs)))"
  using C4_no_oracles [of "sampleEnv ''testnet''" sampleParams sampleStartup emptyFs]
  by (simp add: sample_facts hasOracles_testnet overridesGasPrice_20)

text \<open>
  C5, as stated: the error is not always one that names the network. The gas price is
  converted and the signers are fetched (lines 189--190) before the wrapped token is
  looked up (line 198). On \<^verbatim>\<open>dev\<close>, which has no wrapped-token address, with the Uniswap
  pair requested and the real price feed not: when the signers cannot be fetched, the run
  ends with that rejection; when the gas price is \<open>-5\<close>, it ends with the error of the
  conversion, before any call. Neither error names the network.
\<close>

theorem C5_no_wrapped_token_counterexample:
  "\<not> hasWIOTX (network_name (rejectingEnv ''dev''))
   \<and> \<not> hasWIOTX (network_name (sampleEnv ''dev''))
   \<and> createUniswapPair (sampleParams\<lparr>useRealPriceFeed := Some False\<rparr>) = Some True
   \<and> deploy sampleStartup (rejectingEnv ''dev'') (sampleParams\<lparr>useRealPriceFeed := Some False\<rparr>)
          emptyFs
        = (Inl (Rejected ''could not detect network''), \<lparr>trace = [GetSigners], fs = emptyFs\<rparr>)
   \<and> createUniswapPair (sampleParams\<lparr>gasPrice := Some (Dec (- 5) 0)\<rparr>) = Some True
   \<and> deploy sampleStartup (sampleEnv ''dev'') (sampleParams\<lparr>gasPrice := Some (Dec (- 5) 0)\<rparr>)
          emptyFs
        = (Inl (BadDecimalFormat (Dec (- 5) 0)), \<lparr>trace = [], fs = emptyFs\<rparr>)"
  by (simp add: sample_run_rejecting sample_run_negative sample_facts overridesGasPrice_20
        hasWIOTX_dev rejecting_facts)

text \<open>
  C5, amended. On a network without a wrapped-token address, a run that asks for the
  Uniswap pair fails, whatever its environment, before any contract is deployed or any
  transaction submitted, and leaves the file system as it was. The error is the error of
  the gas price conversion when the gas price does not convert, else the rejection of
  \<^verbatim>\<open>getSigners\<close> when the signers cannot be fetched, else a configuration error that names
  the network: \<^verbatim>\<open>WETH not deployed on N\<close>, or \<^verbatim>\<open>PriceFeed not supported on N\<close> when the check
  of the price feed, which comes first, fails as well. When \<^verbatim>\<open>createUniswapPair\<close> is not
  \<^verbatim>\<open>true\<close>, no address is looked up: \<^verbatim>\<open>wiotxAddress\<close> stays \<^verbatim>\<open>undefined\<close>, and that is what
  the deployment receives.
\<close>

theorem C5_no_wrapped_token:
  "(\<not> hasWIOTX (network_name env) \<and> createUniswapPair params = Some True \<longrightarrow>
      (\<exists>err. fst (deploy st env params fs0) = Inl err)
    \<and> \<not> list_ex isDeploymentCall (trace (snd (deploy st env params fs0)))
    \<and> fs (snd (deploy st env params fs0)) = fs0
    \<and> fst (deploy st env params fs0)
        = (case overridesGasPrice (gasPrice params) of
             Inl err \<Rightarrow> Inl err
           | Inr overrides \<Rightarrow>
               (case getSigners env of
                  Inl err \<Rightarrow> Inl err
                | Inr signers \<Rightarrow>
                    Inl (Error ((if resolveUseRealPriceFeed (useRealPriceFeed params) (network_name env)
                                      \<and> \<not> hasOracles (network_name env)
                                   then ''PriceFeed not supported on ''
                                   else ''WETH not deployed on '')
                                  @ network_name env))))
    \<and> (\<forall>overrides signers.
          overridesGasPrice (gasPrice params) = Inr overrides \<longrightarrow>
          getSigners env = Inr signers \<longrightarrow>
          fst (deploy st env params fs0)
            = Inl (Error ((if resolveUseRealPriceFeed (useRealPriceFeed params) (network_name env)
                              \<and> \<not> hasOracles (network_name env)
                           then ''PriceFeed not supported on '' else ''WETH not deployed on '')
                          @ network_name env))))
 \<and> (createUniswapPair params \<noteq> Some True \<longrightarrow>
      resolveWiotxAddress (createUniswapPair params) (network_name env) = Inr JSUndefined
    \<and> (\<forall>deployer factory useTest isDev wiotxAddress overrides.
          DeployAndSetupContracts deployer factory useTest isDev wiotxAddress overrides
            \<in> set (trace (snd (deploy st env params fs0))) \<longrightarrow>
          wiotxAddress = JSUndefined))"
proof (intro conjI impI)
  assume a: "\<not> hasWIOTX (network_name env) \<and> createUniswapPair params = Some True"
  then show "\<exists>err. fst (deploy st env params fs0) = Inl err"
    by (simp add: deploy_def assembleRecord_def checkPriceFeed_def resolveWiotxAddress_def
          call_def Let_def split: sum.splits)
  from a show "\<not> list_ex isDeploymentCall (trace (snd (deploy st env params fs0)))"
    by (simp add: deploy_def assembleRecord_def checkPriceFeed_def resolveWiotxAddress_def
          call_def Let_def split: sum.splits)
  from a show "fs (snd (deploy st env params fs0)) = fs0"
    by (simp add: deploy_def assembleRecord_def checkPriceFeed_def resolveWiotxAddress_def
          call_def Let_def split: sum.splits)
  from a show "fst (deploy st env params fs0)
        = (case overridesGasPrice (gasPrice params) of
             Inl err \<Rightarrow> Inl err
           | Inr overrides \<Rightarrow>
               (case getSigners env of
                  Inl err \<Rightarrow> Inl err
                | Inr signers \<Rightarrow>
                    Inl (Error ((if resolveUseRealPriceFeed (useRealPriceFeed params) (network_name env)
                                      \<and> \<not> hasOracles (network_name env)
                                   then ''PriceFeed not supported on ''
                                   else ''WETH not deployed on '')
                                  @ network_name env))))"
    by (simp add: deploy_def assembleRecord_def checkPriceFeed_def resolveWiotxAddress_def
          call_def Let_def split: sum.splits)
  from a show "\<forall>overrides signers.
          overridesGasPrice (gasPrice params) = Inr overrides \<longrightarrow>
          getSigners env = Inr signers \<longrightarrow>
          fst (deploy st env params fs0)
            = Inl (Error ((if resolveUseRealPriceFeed (useRealPriceFeed params) (network_name env)
                              \<and> \<not> hasOracles (network_name env)
                           then ''PriceFeed not supported on '' else ''WETH not deployed on '')
                          @ network_name env))"
    by (simp add: deploy_def assembleRecord_def checkPriceFeed_def resolveWiotxAddress_def
          call_def Let_def split: sum.splits)
next
  assume b: "createUniswapPair params \<noteq> Some True"
  then show "resolveWiotxAddress (createUniswapPair params) (network_name env) = Inr JSUndefined"
    by (simp add: resolveWiotxAddress_def)
  from b show "\<forall>deployer factory useTest isDev wiotxAddress overrides.
          DeployAndSetupContracts deployer factory useTest isDev wiotxAddress overrides
            \<in> set (trace (snd (deploy st env params fs0))) \<longrightarrow>
          wiotxAddress = JSUndefined"
    by (auto simp: deploy_def assembleRecord_def checkPriceFeed_def resolveWiotxAddress_def
          writeManifest_def wireOracles_def deployLiquity_def
          call_def Let_def split: sum.splits prod.splits if_splits option.splits)
qed

theorem C5_no_wrapped_token_witness:
  "\<not> hasWIOTX (network_name (sampleEnv ''dev''))
   \<and> createUniswapPair (sampleParams\<lparr>useRealPriceFeed := Some False\<rparr>) = Some True
   \<and> fst (deploy sampleStartup (sampleEnv ''dev'')
             (sampleParams\<lparr>useRealPriceFeed := Some False\<rparr>) emptyFs)
        = Inl (Error ''WETH not deployed on dev'')
   \<and> createUniswapPair (sampleParams\<lparr>useRealPriceFeed := None, createUniswapPair := None\<rparr>)
        \<noteq> Some True
   \<and> resolveWiotxAddress None ''dev'' = Inr JSUndefined
   \<and> DeployAndSetupContracts (Some ''0xdeployer'') CompiledArtifacts True True JSUndefined
          (GasHex ''0x04a817c800'')
        \<in> set (trace (snd (deploy sampleStartup (sampleEnv ''dev'')
              (sampleParams\<lparr>useRealPriceFeed := None, createUniswapPair := None\<rparr>) emptyFs)))"
  using C5_no_wrapped_token [of "sampleEnv ''dev''" "sampleParams\<lparr>useRealPriceFeed := Some False\<rparr>"
      sampleStartup emptyFs]
    C5_no_wrapped_token [of "sampleEnv ''dev''"
      "sampleParams\<lparr>useRealPriceFeed := None, createUniswapPair := None\<rparr>" sampleStartup emptyFs]
  by (simp add: sample_run_dev sample_facts hasWIOTX_dev hasOracles_dev overridesGasPrice_20
        resolveUseRealPriceFeed_def)

subsection \<open>The default of the price feed\<close>

text \<open>
  C6. With \<^verbatim>\<open>useRealPriceFeed\<close> unset, the flag resolves to true exactly when the network is
  \<^verbatim>\<open>mainnet\<close>, the production network, and to false on every other network: the run is the
  run in which the flag was given that value.
\<close>

theorem C6_default_price_feed:
  "resolveUseRealPriceFeed None network = (network = ''mainnet'')
   \<and> deploy st env (params\<lparr>useRealPriceFeed := None\<rparr>) fs0
       = deploy st env (params\<lparr>useRealPriceFeed := Some (network_name env = ''mainnet'')\<rparr>) fs0"
  by (simp add: resolveUseRealPriceFeed_def deploy_def assembleRecord_def Let_def
        cong: sum.case_cong prod.case_cong)

theorem C6_default_price_feed_witness:
  "resolveUseRealPriceFeed None ''mainnet'' \<and> \<not> resolveUseRealPriceFeed None ''testnet''"
  using C6_default_price_feed [of "''mainnet''"] C6_default_price_feed [of "''testnet''"]
  by simp

subsection \<open>The manifest\<close>



subsection \<open>The manifest writer\<close>















subsection \<open>The accounts of the dev network\<close>

lemma generateLoop_fills:
  assumes "i \<le> n" and "length accounts = n"
  shows "generateLoop keys i n accounts drawn
           = (take i accounts @ map (\<lambda>j. Some (keys (drawn + j))) [0..<n - i], drawn + (n - i))"
  using assms
proof (induction keys i n accounts drawn rule: generateLoop.induct)
  case (1 keys i n accounts drawn)
  show ?case
  proof (cases "i < n")
    case False
    with "1.prems" show ?thesis
      by (simp add: generateLoop.simps)
  next
    case True
    let ?accounts = "accounts[i := Some (keys drawn)]"
    have step: "generateLoop keys i n accounts drawn = generateLoop keys (Suc i) n ?accounts (Suc drawn)"
      using True by (subst generateLoop.simps) (simp add: createRandomPrivateKey_def)
    have ih: "generateLoop keys (Suc i) n ?accounts (Suc drawn)
        = (take (Suc i) ?accounts @ map (\<lambda>j. Some (keys (Suc drawn + j))) [0..<n - Suc i],
           Suc drawn + (n - Suc i))"
      using "1.IH" True "1.prems"
      by (simp add: createRandomPrivateKey_def)
    have front: "take (Suc i) ?accounts = take i accounts @ [Some (keys drawn)]"
      using True "1.prems" by (simp add: take_Suc_conv_app_nth)
    have "[0..<n - i] = 0 # map Suc [0..<n - Suc i]"
      using True by (metis Suc_diff_Suc map_Suc_upt upt_conv_Cons zero_less_diff)
    then have rest: "map (\<lambda>j. Some (keys (drawn + j))) [0..<n - i]
        = Some (keys drawn) # map (\<lambda>j. Some (keys (Suc drawn + j))) [0..<n - Suc i]"
      by (simp add: comp_def)
    show ?thesis
      using True by (simp add: step ih front rest)
  qed
qed

lemma generateRandomAccounts_keys:
  assumes "0 \<le> n" and "n < 4294967296"
  shows "generateRandomAccounts keys n drawn
           = Inr (map (\<lambda>j. Some (keys (drawn + j))) [0..<nat n], drawn + nat n)"
  using assms generateLoop_fills [of 0 "nat n" "replicate (nat n) None" keys drawn]
  by (simp add: generateRandomAccounts_def)

text \<open>
  C9. \<^verbatim>\<open>generateRandomAccounts(n)\<close> returns exactly \<open>n\<close> keys, the next \<open>n\<close> the process draws,
  with no hole left in the array (for a length an array can have). The account list of the
  dev network has length \<open>numAccounts\<close>, that is 100: at index 0 the deployer account, which
  is the key configured in \<^verbatim>\<open>DEPLOYER_PRIVATE_KEY\<close> when one is configured; at index 1 the
  fixed rich account; then the \<open>numAccounts - 2 = 98\<close> generated keys.
\<close>

theorem C9_dev_accounts:
  "(0 \<le> n \<and> n < 4294967296 \<longrightarrow>
      generateRandomAccounts keys n drawn
        = Inr (map (\<lambda>j. Some (keys (drawn + j))) [0..<nat n], drawn + nat n)
    \<and> length (fst (projr (generateRandomAccounts keys n drawn))) = nat n
    \<and> None \<notin> set (fst (projr (generateRandomAccounts keys n drawn))))
   \<and> devAccounts keys DEPLOYER_PRIVATE_KEY drawn
        = Inr (Some (fst (deployerAccount keys DEPLOYER_PRIVATE_KEY drawn))
               # Some devChainRichAccount
               # map (\<lambda>j. Some (keys (snd (deployerAccount keys DEPLOYER_PRIVATE_KEY drawn) + j)))
                   [0..<98])
   \<and> int (length (projr (devAccounts keys DEPLOYER_PRIVATE_KEY drawn))) = numAccounts
   \<and> length (projr (devAccounts keys DEPLOYER_PRIVATE_KEY drawn)) = 100
   \<and> projr (devAccounts keys DEPLOYER_PRIVATE_KEY drawn) ! 0
        = Some (fst (deployerAccount keys DEPLOYER_PRIVATE_KEY drawn))
   \<and> (DEPLOYER_PRIVATE_KEY = Some k \<and> k \<noteq> [] \<longrightarrow>
        projr (devAccounts keys DEPLOYER_PRIVATE_KEY drawn) ! 0 = Some k)
   \<and> projr (devAccounts keys DEPLOYER_PRIVATE_KEY drawn) ! 1 = Some devChainRichAccount
   \<and> length (drop 2 (projr (devAccounts keys DEPLOYER_PRIVATE_KEY drawn))) = nat (numAccounts - 2)"
proof -
  obtain deployer drawn1 where d: "deployerAccount keys DEPLOYER_PRIVATE_KEY drawn = (deployer, drawn1)"
    by (cases "deployerAccount keys DEPLOYER_PRIVATE_KEY drawn")
  have g: "generateRandomAccounts keys (numAccounts - 2) drawn1
      = Inr (map (\<lambda>j. Some (keys (drawn1 + j))) [0..<98], drawn1 + 98)"
    using generateRandomAccounts_keys [of "numAccounts - 2" keys drawn1]
    by (simp add: numAccounts_def)
  have acc: "devAccounts keys DEPLOYER_PRIVATE_KEY drawn
      = Inr (Some deployer # Some devChainRichAccount # map (\<lambda>j. Some (keys (drawn1 + j))) [0..<98])"
    by (simp add: devAccounts_def d g)
  have named: "DEPLOYER_PRIVATE_KEY = Some k \<and> k \<noteq> [] \<longrightarrow> deployer = k"
    using d by (auto simp: deployerAccount_def)
  have gen: "0 \<le> n \<and> n < 4294967296 \<longrightarrow>
      generateRandomAccounts keys n drawn
        = Inr (map (\<lambda>j. Some (keys (drawn + j))) [0..<nat n], drawn + nat n)
    \<and> length (fst (projr (generateRandomAccounts keys n drawn))) = nat n
    \<and> None \<notin> set (fst (projr (generateRandomAccounts keys n drawn)))"
    by (auto simp: generateRandomAccounts_keys)
  have list: "devAccounts keys DEPLOYER_PRIVATE_KEY drawn
        = Inr (Some (fst (deployerAccount keys DEPLOYER_PRIVATE_KEY drawn))
               # Some devChainRichAccount
               # map (\<lambda>j. Some (keys (snd (deployerAccount keys DEPLOYER_PRIVATE_KEY drawn) + j)))
                   [0..<98])"
    by (simp add: acc d)
  have size: "int (length (projr (devAccounts keys DEPLOYER_PRIVATE_KEY drawn))) = numAccounts"
      "length (projr (devAccounts keys DEPLOYER_PRIVATE_KEY drawn)) = 100"
      "length (drop 2 (projr (devAccounts keys DEPLOYER_PRIVATE_KEY drawn))) = nat (numAccounts - 2)"
    by (simp_all add: acc numAccounts_def)
  have heads: "projr (devAccounts keys DEPLOYER_PRIVATE_KEY drawn) ! 0
        = Some (fst (deployerAccount keys DEPLOYER_PRIVATE_KEY drawn))"
      "projr (devAccounts keys DEPLOYER_PRIVATE_KEY drawn) ! 1 = Some devChainRichAccount"
    by (simp_all add: acc d)
  have configured: "DEPLOYER_PRIVATE_KEY = Some k \<and> k \<noteq> [] \<longrightarrow>
        projr (devAccounts keys DEPLOYER_PRIVATE_KEY drawn) ! 0 = Some k"
    using named heads(1) d by (metis fst_conv)
  from gen list size heads configured show ?thesis
    by blast
qed

theorem C9_dev_accounts_witness:
  "(0::int) \<le> 3 \<and> (3::int) < 4294967296
   \<and> generateRandomAccounts sampleKeys 3 0
       = Inr ([Some (sampleKeys 0), Some (sampleKeys 1), Some (sampleKeys 2)], 3)
   \<and> Some ''0xabc'' = Some ''0xabc'' \<and> ''0xabc'' \<noteq> []
   \<and> projr (devAccounts sampleKeys (Some ''0xabc'') 0) ! 0 = Some ''0xabc''
   \<and> length (projr (devAccounts sampleKeys (Some ''0xabc'') 0)) = 100"
proof -
  have three: "[0..<3] = [0, 1, 2]"
    by (simp add: upt_rec)
  show ?thesis
    using C9_dev_accounts [of 3 sampleKeys 0 "Some ''0xabc''" "''0xabc''"]
    by (simp add: three deployerAccount_def)
qed

end
